theory Spec2Isabelle
  imports Complex_Main
begin

section \<open>Numbers: numpy float64 values\<close>

text \<open>
  The projection code computes on numpy arrays of float64. A float64 is modelled by its
  value: a finite number, one of the two infinities, or NaN. The special values follow
  IEEE 754 (as numpy does, which reports division by zero and invalid operations as
  warnings and returns inf or NaN). Finite arithmetic is exact: rounding and overflow are
  not modelled, and the two zeros are one value, so \<open>x / 0\<close> has the sign of \<open>x\<close>. A
  bound on the rounding error of a computation is not a statement of this model.
\<close>

datatype npfloat = Fin real | PInf | NInf | NaN

instantiation npfloat :: "{plus, uminus, minus, times, inverse, abs}"
begin

fun plus_npfloat :: "npfloat \<Rightarrow> npfloat \<Rightarrow> npfloat" where
  "Fin a + Fin b = Fin (a + b)"
| "NaN + _ = NaN"
| "_ + NaN = NaN"
| "PInf + NInf = NaN"
| "NInf + PInf = NaN"
| "PInf + _ = PInf"
| "_ + PInf = PInf"
| "NInf + _ = NInf"
| "_ + NInf = NInf"

fun uminus_npfloat :: "npfloat \<Rightarrow> npfloat" where
  "- Fin a = Fin (- a)"
| "- PInf = NInf"
| "- NInf = PInf"
| "- NaN = NaN"

definition minus_npfloat :: "npfloat \<Rightarrow> npfloat \<Rightarrow> npfloat" where
  "(a :: npfloat) - b = a + (- b)"

fun times_npfloat :: "npfloat \<Rightarrow> npfloat \<Rightarrow> npfloat" where
  "Fin a * Fin b = Fin (a * b)"
| "NaN * _ = NaN"
| "_ * NaN = NaN"
| "PInf * Fin b = (if b = 0 then NaN else if 0 < b then PInf else NInf)"
| "NInf * Fin b = (if b = 0 then NaN else if 0 < b then NInf else PInf)"
| "Fin a * PInf = (if a = 0 then NaN else if 0 < a then PInf else NInf)"
| "Fin a * NInf = (if a = 0 then NaN else if 0 < a then NInf else PInf)"
| "PInf * PInf = PInf"
| "PInf * NInf = NInf"
| "NInf * PInf = NInf"
| "NInf * NInf = PInf"

fun divide_npfloat :: "npfloat \<Rightarrow> npfloat \<Rightarrow> npfloat" where
  "divide (Fin a) (Fin b) =
     (if b = 0 then (if a = 0 then NaN else if 0 < a then PInf else NInf)
      else Fin (a / b))"
| "divide NaN _ = NaN"
| "divide _ NaN = NaN"
| "divide (Fin a) PInf = Fin 0"
| "divide (Fin a) NInf = Fin 0"
| "divide PInf (Fin b) = (if 0 \<le> b then PInf else NInf)"
| "divide NInf (Fin b) = (if 0 \<le> b then NInf else PInf)"
| "divide PInf PInf = NaN"
| "divide PInf NInf = NaN"
| "divide NInf PInf = NaN"
| "divide NInf NInf = NaN"

definition inverse_npfloat :: "npfloat \<Rightarrow> npfloat" where
  "inverse (a :: npfloat) = divide (Fin 1) a"

fun abs_npfloat :: "npfloat \<Rightarrow> npfloat" where
  "\<bar>Fin a\<bar> = Fin \<bar>a\<bar>"
| "\<bar>PInf\<bar> = PInf"
| "\<bar>NInf\<bar> = PInf"
| "\<bar>NaN\<bar> = NaN"

instance ..

end

text \<open>Comparisons: every comparison with NaN is false.\<close>

fun lt :: "npfloat \<Rightarrow> npfloat \<Rightarrow> bool" where
  "lt (Fin a) (Fin b) = (a < b)"
| "lt NaN _ = False"
| "lt _ NaN = False"
| "lt _ NInf = False"
| "lt PInf _ = False"
| "lt NInf _ = True"
| "lt _ PInf = True"

fun le :: "npfloat \<Rightarrow> npfloat \<Rightarrow> bool" where
  "le (Fin a) (Fin b) = (a \<le> b)"
| "le NaN _ = False"
| "le _ NaN = False"
| "le NInf _ = True"
| "le _ PInf = True"
| "le _ NInf = False"
| "le PInf _ = False"

definition gt :: "npfloat \<Rightarrow> npfloat \<Rightarrow> bool" where
  "gt a b = lt b a"

text \<open>\<open>a == b\<close> on floats.\<close>

fun feq :: "npfloat \<Rightarrow> npfloat \<Rightarrow> bool" where
  "feq NaN _ = False"
| "feq _ NaN = False"
| "feq a b = (a = b)"

text \<open>\<open>np.isfinite\<close>, \<open>np.sqrt\<close>, \<open>np.cos\<close>, \<open>np.sin\<close>, \<open>np.deg2rad\<close>.\<close>

fun isfinite :: "npfloat \<Rightarrow> bool" where
  "isfinite (Fin a) = True"
| "isfinite _ = False"

fun np_sqrt :: "npfloat \<Rightarrow> npfloat" where
  "np_sqrt (Fin a) = (if a < 0 then NaN else Fin (sqrt a))"
| "np_sqrt PInf = PInf"
| "np_sqrt NInf = NaN"
| "np_sqrt NaN = NaN"

fun np_cos :: "npfloat \<Rightarrow> npfloat" where
  "np_cos (Fin a) = Fin (cos a)"
| "np_cos _ = NaN"

fun np_sin :: "npfloat \<Rightarrow> npfloat" where
  "np_sin (Fin a) = Fin (sin a)"
| "np_sin _ = NaN"

definition deg2rad :: "npfloat \<Rightarrow> npfloat" where
  "deg2rad x = x * Fin (pi / 180)"

text \<open>\<open>x ** n\<close> for an integer exponent \<open>n\<close>.\<close>

fun pow_nat :: "npfloat \<Rightarrow> nat \<Rightarrow> npfloat" where
  "pow_nat x 0 = Fin 1"
| "pow_nat x (Suc n) = pow_nat x n * x"

definition np_power :: "npfloat \<Rightarrow> int \<Rightarrow> npfloat" where
  "np_power x n = (if 0 \<le> n then pow_nat x (nat n) else Fin 1 / pow_nat x (nat (- n)))"

section \<open>Vectors: the last axis of an array\<close>

type_synonym vec2 = "npfloat \<times> npfloat"
type_synonym vec3 = "npfloat \<times> npfloat \<times> npfloat"
type_synonym mat2 = "vec2 \<times> vec2"

fun vadd :: "vec3 \<Rightarrow> vec3 \<Rightarrow> vec3" where
  "vadd (a0, a1, a2) (b0, b1, b2) = (a0 + b0, a1 + b1, a2 + b2)"

fun vsub :: "vec3 \<Rightarrow> vec3 \<Rightarrow> vec3" where
  "vsub (a0, a1, a2) (b0, b1, b2) = (a0 - b0, a1 - b1, a2 - b2)"

fun vmul :: "vec3 \<Rightarrow> vec3 \<Rightarrow> vec3" where
  "vmul (a0, a1, a2) (b0, b1, b2) = (a0 * b0, a1 * b1, a2 * b2)"

text \<open>A scalar (an array with a trailing axis of length 1) times or under a vector.\<close>

fun vscale :: "npfloat \<Rightarrow> vec3 \<Rightarrow> vec3" where
  "vscale s (a0, a1, a2) = (s * a0, s * a1, s * a2)"

fun vdivs :: "vec3 \<Rightarrow> npfloat \<Rightarrow> vec3" where
  "vdivs (a0, a1, a2) s = (a0 / s, a1 / s, a2 / s)"

fun vneg :: "vec3 \<Rightarrow> vec3" where
  "vneg (a0, a1, a2) = (- a0, - a1, - a2)"

text \<open>\<open>x.sum(axis=-1)\<close>, \<open>np.dot\<close>, \<open>np.cross\<close> and \<open>np.linalg.norm\<close> of one vector.\<close>

fun vsum :: "vec3 \<Rightarrow> npfloat" where
  "vsum (a0, a1, a2) = a0 + a1 + a2"

definition np_dot :: "vec3 \<Rightarrow> vec3 \<Rightarrow> npfloat" where
  "np_dot a b = vsum (vmul a b)"

fun np_cross :: "vec3 \<Rightarrow> vec3 \<Rightarrow> vec3" where
  "np_cross (a0, a1, a2) (b0, b1, b2) =
     (a1 * b2 - a2 * b1, a2 * b0 - a0 * b2, a0 * b1 - a1 * b0)"

definition norm3 :: "vec3 \<Rightarrow> npfloat" where
  "norm3 a = np_sqrt (vsum (vmul a a))"

definition vfinite :: "vec3 \<Rightarrow> bool" where
  "vfinite a = (case a of (a0, a1, a2) \<Rightarrow> isfinite a0 \<and> isfinite a1 \<and> isfinite a2)"

definition vnan :: vec3 where
  "vnan = (NaN, NaN, NaN)"

section \<open>Exceptions and arrays\<close>

text \<open>
  A Python exception aborts the call: a function that can raise returns \<open>error + 'a\<close>,
  with \<open>Inl\<close> the exception raised.
\<close>

datatype error =
  AssertionError | TypeError | ValueError | KeyError | IndexError | LinAlgError
  | NotImplementedError

definition and_then :: "error + 'a \<Rightarrow> ('a \<Rightarrow> error + 'b) \<Rightarrow> error + 'b" where
  "and_then m f = (case m of Inl e \<Rightarrow> Inl e | Inr x \<Rightarrow> f x)"

text \<open>
  An optional field that is used in arithmetic (\<open>None - array\<close> raises TypeError), and
  one that is guarded by \<open>assert field is not None\<close>.
\<close>

definition deref :: "'a option \<Rightarrow> error + 'a" where
  "deref v = (case v of None \<Rightarrow> Inl TypeError | Some x \<Rightarrow> Inr x)"

definition assert_not_None :: "'a option \<Rightarrow> error + 'a" where
  "assert_not_None v = (case v of None \<Rightarrow> Inl AssertionError | Some x \<Rightarrow> Inr x)"

text \<open>
  An array of shape \<open>(..., k)\<close> is the list of its rows over the (flattened) leading
  axes: an \<open>(N, 3)\<close> array is a \<open>vec3 list\<close> of length \<open>N\<close>, an \<open>(N, 1)\<close> or \<open>(N,)\<close>
  array a list of \<open>N\<close> numbers, and a single vector \<open>(3,)\<close> a list of length one.
  Elementwise operations broadcast: leading lengths must agree or be one, otherwise numpy
  raises ValueError.
\<close>

definition bjoin :: "nat \<Rightarrow> nat \<Rightarrow> nat option" where
  "bjoin a b = (if a = b then Some a else if a = 1 then Some b
                else if b = 1 then Some a else None)"

fun bshape :: "nat list \<Rightarrow> nat option" where
  "bshape [] = Some 1"
| "bshape (l # ls) = (case bshape ls of None \<Rightarrow> None | Some n \<Rightarrow> bjoin l n)"

definition bget :: "'a list \<Rightarrow> nat \<Rightarrow> 'a" where
  "bget xs i = (if length xs = 1 then xs ! 0 else xs ! i)"

definition belem :: "nat list \<Rightarrow> (nat \<Rightarrow> 'a) \<Rightarrow> error + 'a list" where
  "belem lens f = (case bshape lens of None \<Rightarrow> Inl ValueError
                   | Some n \<Rightarrow> Inr (map f [0..<n]))"

text \<open>Boolean-mask indexing \<open>xs[mask]\<close> and masked assignment \<open>xs[mask] = ys\<close>.\<close>

fun select :: "'a list \<Rightarrow> bool list \<Rightarrow> 'a list" where
  "select (x # xs) (b # bs) = (if b then x # select xs bs else select xs bs)"
| "select _ _ = []"

fun scatter :: "'a list \<Rightarrow> bool list \<Rightarrow> 'a list \<Rightarrow> 'a list" where
  "scatter (x # xs) (True # bs) (y # ys) = y # scatter xs bs ys"
| "scatter (x # xs) (False # bs) ys = x # scatter xs bs ys"
| "scatter xs _ _ = xs"

text \<open>
  A boolean mask indexes the leading axis of an array of that length; another length
  raises IndexError.
\<close>

definition mask_index :: "'a list \<Rightarrow> bool list \<Rightarrow> error + 'a list" where
  "mask_index xs bs = (if length xs = length bs then Inr (select xs bs)
                       else Inl IndexError)"

text \<open>\<open>np.linalg.norm(x)\<close> with no axis: the 2-norm of the whole array, flattened.\<close>

definition norm_all :: "vec3 list \<Rightarrow> npfloat" where
  "norm_all vs = np_sqrt (foldl (\<lambda>acc v. acc + vsum (vmul v v)) (Fin 0) vs)"

subsection \<open>numpy.polynomial.polynomial\<close>

text \<open>
  \<open>polyval\<close> is Horner's rule started at \<open>c[-1] + x*0\<close>; on an empty coefficient
  array \<open>c[-1]\<close> raises IndexError, so \<open>horner\<close> is only used on non-empty lists.
\<close>

fun horner :: "npfloat \<Rightarrow> npfloat list \<Rightarrow> npfloat" where
  "horner x [c] = c + x * Fin 0"
| "horner x (c # cs) = c + horner x cs * x"

definition polyval :: "npfloat list \<Rightarrow> npfloat list \<Rightarrow> error + npfloat list" where
  "polyval x c = (if c = [] then Inl IndexError else Inr (map (\<lambda>xi. horner xi c) x))"

text \<open>\<open>polyder\<close>: \<open>c[:1]*0\<close> for at most one coefficient, otherwise \<open>der[j-1] = j*c[j]\<close>.\<close>

definition polyder :: "npfloat list \<Rightarrow> npfloat list" where
  "polyder c = (if length c \<le> 1 then map (\<lambda>ci. ci * Fin 0) (take 1 c)
                else map (\<lambda>j. Fin (real j) * (c ! j)) [1..<length c])"


text \<open>Coefficient arrays of shape \<open>(N, 3)\<close>: one polynomial per component.\<close>

definition column0 :: "vec3 list \<Rightarrow> npfloat list" where
  "column0 c = map (\<lambda>(c0, c1, c2). c0) c"

definition column1 :: "vec3 list \<Rightarrow> npfloat list" where
  "column1 c = map (\<lambda>(c0, c1, c2). c1) c"

definition column2 :: "vec3 list \<Rightarrow> npfloat list" where
  "column2 c = map (\<lambda>(c0, c1, c2). c2) c"

definition xyzpolyder :: "vec3 list \<Rightarrow> vec3 list" where
  "xyzpolyder c = (if length c \<le> 1 then map (\<lambda>ci. vscale (Fin 0) ci) (take 1 c)
                   else map (\<lambda>j. vscale (Fin (real j)) (c ! j)) [1..<length c])"

definition xyzpolyval :: "npfloat list \<Rightarrow> vec3 list \<Rightarrow> error + vec3 list" where
  "xyzpolyval x c =
     (if c = [] then Inl IndexError
      else Inr (map (\<lambda>xi. (horner xi (column0 c), horner xi (column1 c),
                            horner xi (column2 c))) x))"

section \<open>Parameter ensembles\<close>

text \<open>
  Modelled from the spec: the module \<open>params\<close> (the classes MetadataParams, CoaPosVels,
  ProjectionSets, ScenePointRRdotParams and ScenePointGpXyParams, and the method
  \<open>is_monostatic\<close>) is not among the sources. The records follow the spec's data model
  and the fields the code reads. SideOfTrack, Grid_Type and IFA are the strings the code
  compares them with.
\<close>

datatype collect_type = MONOSTATIC | BISTATIC

record MetadataParams =
  Collect_Type :: collect_type
  SCP :: vec3
  SCP_Lat :: npfloat
  SCP_Lon :: npfloat
  SCP_HAE :: npfloat
  uRow :: vec3
  uCol :: vec3
  SideOfTrack :: string
  Grid_Type :: string
  IFA :: string
  cT_COA :: "npfloat list list"
  ARP_Poly :: "vec3 list"
  Xmt_Poly :: "vec3 list"
  Rcv_Poly :: "vec3 list"
  GRP_Poly :: "vec3 list"
  cPA :: "npfloat list"
  cKSF :: "npfloat list"
  ARP_SCP_COA :: vec3
  VARP_SCP_COA :: vec3
  Xmt_SCP_COA :: vec3
  VXmt_SCP_COA :: vec3
  Rcv_SCP_COA :: vec3
  VRcv_SCP_COA :: vec3

definition is_monostatic :: "MetadataParams \<Rightarrow> bool" where
  "is_monostatic proj_metadata = (Collect_Type proj_metadata = MONOSTATIC)"

record CoaPosVels =
  ARP_COA :: "vec3 list option"
  VARP_COA :: "vec3 list option"
  GRP_COA :: "vec3 list option"
  tx_COA :: "npfloat list option"
  tr_COA :: "npfloat list option"
  Xmt_COA :: "vec3 list option"
  VXmt_COA :: "vec3 list option"
  Rcv_COA :: "vec3 list option"
  VRcv_COA :: "vec3 list option"

record ProjectionSets =
  t_COA :: "npfloat list"
  ARP_COA :: "vec3 list option"
  VARP_COA :: "vec3 list option"
  R_COA :: "npfloat list option"
  Rdot_COA :: "npfloat list option"
  tx_COA :: "npfloat list option"
  tr_COA :: "npfloat list option"
  Xmt_COA :: "vec3 list option"
  VXmt_COA :: "vec3 list option"
  Rcv_COA :: "vec3 list option"
  VRcv_COA :: "vec3 list option"
  R_Avg_COA :: "npfloat list option"
  Rdot_Avg_COA :: "npfloat list option"

record ScenePointRRdotParams =
  R_Avg_PT :: "npfloat list"
  Rdot_Avg_PT :: "npfloat list"
  bP_PT :: "vec3 list"
  bPDot_PT :: "vec3 list"
  uSPN_PT :: "vec3 list"

record ScenePointGpXyParams =
  uGX :: "vec3 list"
  uGY :: "vec3 list"
  M_RRdot_GPXY :: "mat2 list"
  M_GPXY_RRdot :: "mat2 list"

text \<open>
  Modelled from the spec: \<open>sarkit.constants.speed_of_light\<close> is not among the sources;
  the spec gives c = 299,792,458 m/s.
\<close>

definition speed_of_light :: npfloat where
  "speed_of_light = Fin 299792458"

text \<open>The look sign \<open>{"L": +1, "R": -1}[SideOfTrack]\<close>; any other key raises KeyError.\<close>

definition look_of :: "string \<Rightarrow> error + npfloat" where
  "look_of side = (if side = ''L'' then Inr (Fin 1)
                   else if side = ''R'' then Inr (Fin (- 1)) else Inl KeyError)"

section \<open>Image grid and image plane\<close>

definition image_grid_to_image_plane_point :: "MetadataParams \<Rightarrow> vec2 list \<Rightarrow> vec3 list" where
  "image_grid_to_image_plane_point proj_metadata image_grid_locations =
     (let xrow = map fst image_grid_locations;
          ycol = map snd image_grid_locations;
          delta_ip_pts = map2 (\<lambda>x y. vadd (vscale x (uRow proj_metadata))
                                            (vscale y (uCol proj_metadata))) xrow ycol
      in map (\<lambda>d. vadd (SCP proj_metadata) d) delta_ip_pts)"

text \<open>A \<open>2 \<times> 2\<close> matrix (pair of rows) scaled by a number, and applied to a column.\<close>

fun mscale :: "npfloat \<Rightarrow> mat2 \<Rightarrow> mat2" where
  "mscale s ((a, b), (c, d)) = ((s * a, s * b), (s * c, s * d))"

fun matvec :: "mat2 \<Rightarrow> vec2 \<Rightarrow> vec2" where
  "matvec ((a, b), (c, d)) (x, y) = (a * x + b * y, c * x + d * y)"

definition image_plane_point_to_image_grid :: "MetadataParams \<Rightarrow> vec3 list \<Rightarrow> vec2 list" where
  "image_plane_point_to_image_grid proj_metadata image_plane_points =
     (let cos_theta_col = np_dot (uRow proj_metadata) (uCol proj_metadata);
          sin_theta_col = np_sqrt (Fin 1 - np_power cos_theta_col 2);
          m_il_ippt = mscale (np_power sin_theta_col (- 2))
                        ((Fin 1, - cos_theta_col), (- cos_theta_col, Fin 1));
          delta_ip_pt = map (\<lambda>p. vsub p (SCP proj_metadata)) image_plane_points
      in map (\<lambda>d. matvec m_il_ippt (vsum (vmul d (uRow proj_metadata)),
                                      vsum (vmul d (uCol proj_metadata)))) delta_ip_pt)"

section \<open>Centre of aperture: time, positions and velocities\<close>


definition compute_coa_pos_vel :: "MetadataParams \<Rightarrow> npfloat list \<Rightarrow> error + CoaPosVels" where
  "compute_coa_pos_vel proj_metadata t_coa =
     (if is_monostatic proj_metadata then
        and_then (xyzpolyval t_coa (ARP_Poly proj_metadata)) (\<lambda>arp_coa.
        and_then (xyzpolyval t_coa (xyzpolyder (ARP_Poly proj_metadata))) (\<lambda>varp_coa.
        Inr \<lparr>CoaPosVels.ARP_COA = Some arp_coa, CoaPosVels.VARP_COA = Some varp_coa,
             CoaPosVels.GRP_COA = None, CoaPosVels.tx_COA = None,
             CoaPosVels.tr_COA = None, CoaPosVels.Xmt_COA = None,
             CoaPosVels.VXmt_COA = None, CoaPosVels.Rcv_COA = None,
             CoaPosVels.VRcv_COA = None\<rparr>))
      else
        and_then (xyzpolyval t_coa (GRP_Poly proj_metadata)) (\<lambda>grp_coa.
        and_then (xyzpolyval t_coa (Xmt_Poly proj_metadata)) (\<lambda>x0.
        let r_x0 = norm_all (map2 vsub x0 grp_coa);
            tx_coa = map (\<lambda>t. t - r_x0 / speed_of_light) t_coa
        in
        and_then (xyzpolyval tx_coa (Xmt_Poly proj_metadata)) (\<lambda>xmt_coa.
        and_then (xyzpolyval tx_coa (xyzpolyder (Xmt_Poly proj_metadata))) (\<lambda>vxmt_coa.
        and_then (xyzpolyval t_coa (Rcv_Poly proj_metadata)) (\<lambda>r0.
        let r_r0 = norm_all (map2 vsub r0 grp_coa);
            tr_coa = map (\<lambda>t. t + r_r0 / speed_of_light) t_coa
        in
        and_then (xyzpolyval tr_coa (Rcv_Poly proj_metadata)) (\<lambda>rcv_coa.
        and_then (xyzpolyval tr_coa (xyzpolyder (Rcv_Poly proj_metadata))) (\<lambda>vrcv_coa.
        Inr \<lparr>CoaPosVels.ARP_COA = None, CoaPosVels.VARP_COA = None,
             CoaPosVels.GRP_COA = Some grp_coa, CoaPosVels.tx_COA = Some tx_coa,
             CoaPosVels.tr_COA = Some tr_coa, CoaPosVels.Xmt_COA = Some xmt_coa,
             CoaPosVels.VXmt_COA = Some vxmt_coa, CoaPosVels.Rcv_COA = Some rcv_coa,
             CoaPosVels.VRcv_COA = Some vrcv_coa\<rparr>))))))))"

section \<open>Range and range rate at the scene centre point\<close>

record bistatic_results =
  r_avg_scp_coa :: npfloat
  rdot_avg_scp_coa :: npfloat
  bp_scp_coa :: vec3
  bpdot_scp_coa :: vec3

definition scp_r_rdot_projection_contour_bistatic :: "MetadataParams \<Rightarrow> bistatic_results" where
  "scp_r_rdot_projection_contour_bistatic proj_metadata =
     (let r_xmt_scp_coa = norm3 (vsub (Xmt_SCP_COA proj_metadata) (SCP proj_metadata));
          u_xmt_scp_coa = vdivs (vsub (Xmt_SCP_COA proj_metadata) (SCP proj_metadata))
                            r_xmt_scp_coa;
          rdot_xmt_scp_coa = np_dot (VXmt_SCP_COA proj_metadata) u_xmt_scp_coa;
          u_xmtdot_scp_coa = vdivs (vsub (VXmt_SCP_COA proj_metadata)
                                      (vscale rdot_xmt_scp_coa u_xmt_scp_coa)) r_xmt_scp_coa;
          r_rcv_scp_coa = norm3 (vsub (Rcv_SCP_COA proj_metadata) (SCP proj_metadata));
          u_rcv_scp_coa = vdivs (vsub (Rcv_SCP_COA proj_metadata) (SCP proj_metadata))
                            r_rcv_scp_coa;
          rdot_rcv_scp_coa = np_dot (VRcv_SCP_COA proj_metadata) u_rcv_scp_coa;
          u_rcvdot_scp_coa = vdivs (vsub (VRcv_SCP_COA proj_metadata)
                                      (vscale rdot_rcv_scp_coa u_rcv_scp_coa)) r_rcv_scp_coa
      in \<lparr>r_avg_scp_coa = (r_xmt_scp_coa + r_rcv_scp_coa) / Fin 2,
          rdot_avg_scp_coa = (rdot_xmt_scp_coa + rdot_rcv_scp_coa) / Fin 2,
          bp_scp_coa = vdivs (vadd u_xmt_scp_coa u_rcv_scp_coa) (Fin 2),
          bpdot_scp_coa = vdivs (vadd u_xmtdot_scp_coa u_rcvdot_scp_coa) (Fin 2)\<rparr>)"

definition compute_scp_coa_r_rdot :: "MetadataParams \<Rightarrow> npfloat \<times> npfloat" where
  "compute_scp_coa_r_rdot proj_metadata =
     (if is_monostatic proj_metadata then
        (let r_scp_coa = norm3 (vsub (ARP_SCP_COA proj_metadata) (SCP proj_metadata));
             u_pt_scp_coa = vdivs (vsub (ARP_SCP_COA proj_metadata) (SCP proj_metadata))
                              r_scp_coa;
             rdot_scp_coa = np_dot (VARP_SCP_COA proj_metadata) u_pt_scp_coa
         in (r_scp_coa, rdot_scp_coa))
      else
        (let bistatic_results = scp_r_rdot_projection_contour_bistatic proj_metadata
         in (r_avg_scp_coa bistatic_results, rdot_avg_scp_coa bistatic_results)))"

definition compute_scp_coa_slant_plane_normal :: "MetadataParams \<Rightarrow> error + vec3" where
  "compute_scp_coa_slant_plane_normal proj_metadata =
     and_then (look_of (SideOfTrack proj_metadata)) (\<lambda>look.
     let spn_scp_coa =
           (if is_monostatic proj_metadata then
              vscale look (np_cross (vsub (ARP_SCP_COA proj_metadata) (SCP proj_metadata))
                                    (VARP_SCP_COA proj_metadata))
            else
              (let bistatic_results = scp_r_rdot_projection_contour_bistatic proj_metadata
               in vscale look (np_cross (bp_scp_coa bistatic_results)
                                        (bpdot_scp_coa bistatic_results))))
     in Inr (vdivs spn_scp_coa (norm3 spn_scp_coa)))"

section \<open>Range and range rate parameters at scene points\<close>

text \<open>One scene point against one pair of aperture phase centres (lines 661 to 679).\<close>

definition pt_r_rdot_elem ::
  "vec3 \<Rightarrow> vec3 \<Rightarrow> vec3 \<Rightarrow> vec3 \<Rightarrow> vec3 \<Rightarrow> npfloat \<times> npfloat \<times> vec3 \<times> vec3" where
  "pt_r_rdot_elem xmt vxmt rcv vrcv pt =
     (let r_xmt_pt = norm3 (vsub xmt pt);
          u_xmt_pt = vdivs (vsub xmt pt) r_xmt_pt;
          rdot_xmt_pt = vsum (vmul vxmt u_xmt_pt);
          u_xmtdot_pt = vdivs (vsub vxmt (vscale rdot_xmt_pt u_xmt_pt)) r_xmt_pt;
          r_rcv_pt = norm3 (vsub rcv pt);
          u_rcv_pt = vdivs (vsub rcv pt) r_rcv_pt;
          rdot_rcv_pt = vsum (vmul vrcv u_rcv_pt);
          u_rcvdot_pt = vdivs (vsub vrcv (vscale rdot_rcv_pt u_rcv_pt)) r_rcv_pt;
          r_avg_pt = (r_xmt_pt + r_rcv_pt) / Fin 2;
          rdot_avg_pt = (rdot_xmt_pt + rdot_rcv_pt) / Fin 2;
          bp_pt = vdivs (vadd u_xmt_pt u_rcv_pt) (Fin 2);
          bpdot_pt = vdivs (vadd u_xmtdot_pt u_rcvdot_pt) (Fin 2)
      in (r_avg_pt, rdot_avg_pt, bp_pt, bpdot_pt))"

text \<open>
  The slant plane normals are divided by \<open>np.linalg.norm(spn_pt)\<close>, called with no axis:
  the norm of the whole array.
\<close>

definition compute_pt_r_rdot_parameters ::
  "MetadataParams \<Rightarrow> CoaPosVels \<Rightarrow> vec3 list \<Rightarrow> error + ScenePointRRdotParams" where
  "compute_pt_r_rdot_parameters proj_metadata coa_pos_vels scene_points =
     and_then (deref (CoaPosVels.Xmt_COA coa_pos_vels)) (\<lambda>xmt.
     and_then (deref (CoaPosVels.VXmt_COA coa_pos_vels)) (\<lambda>vxmt.
     and_then (deref (CoaPosVels.Rcv_COA coa_pos_vels)) (\<lambda>rcv.
     and_then (deref (CoaPosVels.VRcv_COA coa_pos_vels)) (\<lambda>vrcv.
     and_then (belem [length xmt, length vxmt, length rcv, length vrcv, length scene_points]
                 (\<lambda>i. pt_r_rdot_elem (bget xmt i) (bget vxmt i) (bget rcv i) (bget vrcv i)
                                      (bget scene_points i))) (\<lambda>elems.
     and_then (look_of (SideOfTrack proj_metadata)) (\<lambda>look.
     let spn_pt = map (\<lambda>(r_avg_pt, rdot_avg_pt, bp_pt, bpdot_pt).
                          vscale look (np_cross bp_pt bpdot_pt)) elems;
         uspn_pt = map (\<lambda>spn. vdivs spn (norm_all spn_pt)) spn_pt
     in Inr \<lparr>R_Avg_PT = map (\<lambda>(r_avg_pt, rdot_avg_pt, bp_pt, bpdot_pt). r_avg_pt) elems,
             Rdot_Avg_PT = map (\<lambda>(r_avg_pt, rdot_avg_pt, bp_pt, bpdot_pt). rdot_avg_pt) elems,
             bP_PT = map (\<lambda>(r_avg_pt, rdot_avg_pt, bp_pt, bpdot_pt). bp_pt) elems,
             bPDot_PT = map (\<lambda>(r_avg_pt, rdot_avg_pt, bp_pt, bpdot_pt). bpdot_pt) elems,
             uSPN_PT = uspn_pt\<rparr>))))))"

section \<open>Range and range rate contours\<close>

text \<open>
  The terms \<open>delta_r\<close> and \<open>delta_rdot\<close> of one grid location and COA time of
  \<open>r_rdot_from_rgazim_pfa\<close> (lines 356 to 364).
\<close>

definition rgazim_pfa_delta ::
  "npfloat \<Rightarrow> npfloat \<Rightarrow> npfloat \<Rightarrow> npfloat \<Rightarrow> npfloat \<Rightarrow> npfloat \<Rightarrow> npfloat \<times> npfloat" where
  "rgazim_pfa_delta rg_tgts az_tgts theta dtheta_dt ksf dksf_dtheta =
     (let dphi_dka = rg_tgts * np_cos theta + az_tgts * np_sin theta;
          dphi_dkc = (- rg_tgts) * np_sin theta + az_tgts * np_cos theta;
          delta_r = ksf * dphi_dka;
          delta_rdot = (dksf_dtheta * dphi_dka + ksf * dphi_dkc) * dtheta_dt
      in (delta_r, delta_rdot))"

text \<open>The reference range and range rate of lines 337 to 346, as \<open>(N, 1)\<close> arrays.\<close>

definition rgazim_pfa_scp ::
  "MetadataParams \<Rightarrow> CoaPosVels \<Rightarrow> error + (npfloat list \<times> npfloat list)" where
  "rgazim_pfa_scp proj_metadata coa_pos_vels =
     (if is_monostatic proj_metadata then
        and_then (deref (CoaPosVels.ARP_COA coa_pos_vels)) (\<lambda>arp_coa.
        let r_scp_vector = map (\<lambda>a. vsub a (SCP proj_metadata)) arp_coa;
            r_scp = map norm3 r_scp_vector
        in
        and_then (deref (CoaPosVels.VARP_COA coa_pos_vels)) (\<lambda>varp_coa.
        and_then (belem [length varp_coa, length r_scp_vector]
                    (\<lambda>i. vsum (vmul (bget varp_coa i) (bget r_scp_vector i))
                           / bget r_scp i)) (\<lambda>rdot_scp.
        Inr (r_scp, rdot_scp))))
      else
        and_then (compute_pt_r_rdot_parameters proj_metadata coa_pos_vels
                    [SCP proj_metadata]) (\<lambda>pt_r_rdot_params.
        Inr (R_Avg_PT pt_r_rdot_params, Rdot_Avg_PT pt_r_rdot_params)))"

text \<open>
  The grid locations and the COA times broadcast to the shape of the delta terms (lines
  357 to 364); \<open>r\<close> has the shape of \<open>r_scp\<close> and \<open>delta_r\<close> (line 367), \<open>rdot\<close> that of
  \<open>rdot_scp\<close> and \<open>delta_rdot\<close> (line 368).
\<close>

definition r_rdot_from_rgazim_pfa ::
  "MetadataParams \<Rightarrow> vec2 list \<Rightarrow> npfloat list \<Rightarrow> CoaPosVels
     \<Rightarrow> error + (npfloat list \<times> npfloat list)" where
  "r_rdot_from_rgazim_pfa proj_metadata image_grid_locations t_coa coa_pos_vels =
     (let rg_tgts = map fst image_grid_locations;
          az_tgts = map snd image_grid_locations
      in
      and_then (rgazim_pfa_scp proj_metadata coa_pos_vels) (\<lambda>(r_scp, rdot_scp).
      and_then (polyval t_coa (cPA proj_metadata)) (\<lambda>theta.
      and_then (polyval t_coa (polyder (cPA proj_metadata))) (\<lambda>dtheta_dt.
      and_then (polyval theta (cKSF proj_metadata)) (\<lambda>ksf.
      and_then (polyval theta (polyder (cKSF proj_metadata))) (\<lambda>dksf_dtheta.
      and_then (belem [length rg_tgts, length t_coa]
                  (\<lambda>i. rgazim_pfa_delta (bget rg_tgts i) (bget az_tgts i) (bget theta i)
                          (bget dtheta_dt i) (bget ksf i) (bget dksf_dtheta i))) (\<lambda>delta.
      and_then (belem [length r_scp, length delta]
                  (\<lambda>i. bget r_scp i + fst (bget delta i))) (\<lambda>r.
      and_then (belem [length rdot_scp, length delta]
                  (\<lambda>i. bget rdot_scp i + snd (bget delta i))) (\<lambda>rdot.
      Inr (r, rdot))))))))))"

text \<open>
  The other contour functions are declared with no parameter and a body that raises
  NotImplementedError. A Python call binds the arguments before the body runs: with a
  positional argument it raises TypeError.
\<close>

definition r_rdot_from_rgazim_rgazcomp :: "nat \<Rightarrow> error + (npfloat list \<times> npfloat list)" where
  "r_rdot_from_rgazim_rgazcomp nargs = (if nargs \<noteq> 0 then Inl TypeError else Inl NotImplementedError)"

definition r_rdot_from_rgzero :: "nat \<Rightarrow> error + (npfloat list \<times> npfloat list)" where
  "r_rdot_from_rgzero nargs = (if nargs \<noteq> 0 then Inl TypeError else Inl NotImplementedError)"

definition r_rdot_from_xrgycr :: "nat \<Rightarrow> error + (npfloat list \<times> npfloat list)" where
  "r_rdot_from_xrgycr nargs = (if nargs \<noteq> 0 then Inl TypeError else Inl NotImplementedError)"

definition r_rdot_from_xctyat :: "nat \<Rightarrow> error + (npfloat list \<times> npfloat list)" where
  "r_rdot_from_xctyat nargs = (if nargs \<noteq> 0 then Inl TypeError else Inl NotImplementedError)"

definition r_rdot_from_plane :: "nat \<Rightarrow> error + (npfloat list \<times> npfloat list)" where
  "r_rdot_from_plane nargs = (if nargs \<noteq> 0 then Inl TypeError else Inl NotImplementedError)"

text \<open>The value of the variable \<open>r_rdot_func\<close>, and its call with four arguments.\<close>

datatype r_rdot_func =
  From_rgazim_pfa | From_rgazim_rgazcomp | From_rgzero | From_xrgycr | From_xctyat
  | From_plane

definition call_r_rdot_func ::
  "r_rdot_func \<Rightarrow> MetadataParams \<Rightarrow> vec2 list \<Rightarrow> npfloat list \<Rightarrow> CoaPosVels
     \<Rightarrow> error + (npfloat list \<times> npfloat list)" where
  "call_r_rdot_func f proj_metadata image_grid_locations t_coa coa_pos_vels =
     (case f of
        From_rgazim_pfa \<Rightarrow>
          r_rdot_from_rgazim_pfa proj_metadata image_grid_locations t_coa coa_pos_vels
      | From_rgazim_rgazcomp \<Rightarrow> r_rdot_from_rgazim_rgazcomp 4
      | From_rgzero \<Rightarrow> r_rdot_from_rgzero 4
      | From_xrgycr \<Rightarrow> r_rdot_from_xrgycr 4
      | From_xctyat \<Rightarrow> r_rdot_from_xctyat 4
      | From_plane \<Rightarrow> r_rdot_from_plane 4)"

definition select_r_rdot_func :: "MetadataParams \<Rightarrow> r_rdot_func option" where
  "select_r_rdot_func proj_metadata =
     (if Grid_Type proj_metadata = ''RGAZIM'' then
        (let r_rdot_func = None;
             r_rdot_func = (if IFA proj_metadata = ''PFA'' then Some From_rgazim_pfa
                            else r_rdot_func);
             r_rdot_func = (if IFA proj_metadata = ''RGAZCOMP''
                            then Some From_rgazim_rgazcomp else r_rdot_func)
         in r_rdot_func)
      else
        map_of [(''RGZERO'', From_rgzero), (''XRGYCR'', From_xrgycr),
                (''XCTYAT'', From_xctyat), (''PLANE'', From_plane)]
          (Grid_Type proj_metadata))"

definition compute_coa_r_rdot ::
  "MetadataParams \<Rightarrow> vec2 list \<Rightarrow> npfloat list \<Rightarrow> CoaPosVels
     \<Rightarrow> error + (npfloat list \<times> npfloat list)" where
  "compute_coa_r_rdot proj_metadata image_grid_locations t_coa coa_pos_vels =
     (case select_r_rdot_func proj_metadata of
        None \<Rightarrow> Inl ValueError
      | Some r_rdot_func \<Rightarrow>
          call_r_rdot_func r_rdot_func proj_metadata image_grid_locations t_coa coa_pos_vels)"


section \<open>Ground plane coordinates and sensitivity matrices\<close>

text \<open>\<open>v * s\<close> with the vector on the left.\<close>

fun vtimes :: "vec3 \<Rightarrow> npfloat \<Rightarrow> vec3" where
  "vtimes (a0, a1, a2) s = (a0 * s, a1 * s, a2 * s)"

text \<open>
  \<open>np.stack((a, b), axis=-1)\<close> of two arrays of shape \<open>(..., 2)\<close> has shape
  \<open>(..., 2, 2)\<close> with entry \<open>[i, k]\<close> the \<open>i\<close>-th component of the \<open>k\<close>-th array: the
  stacked arrays are the columns. A matrix is the pair of its rows.
\<close>

definition stack_last :: "vec2 \<Rightarrow> vec2 \<Rightarrow> mat2" where
  "stack_last a b = ((fst a, fst b), (snd a, snd b))"

fun mnegative :: "mat2 \<Rightarrow> mat2" where
  "mnegative ((a, b), (c, d)) = ((- a, - b), (- c, - d))"

definition mfinite :: "mat2 \<Rightarrow> bool" where
  "mfinite m = (case m of ((a, b), (c, d)) \<Rightarrow>
     isfinite a \<and> isfinite b \<and> isfinite c \<and> isfinite d)"

text \<open>
  \<open>np.linalg.inv\<close> of one \<open>2 \<times> 2\<close> matrix: LinAlgError for a singular matrix. For a
  matrix with an entry that is not finite LAPACK reports no error and returns entries
  that are not finite; they are modelled as NaN.
\<close>

definition inv2 :: "mat2 \<Rightarrow> error + mat2" where
  "inv2 m = (case m of ((a, b), (c, d)) \<Rightarrow>
     if \<not> mfinite m then Inr ((NaN, NaN), (NaN, NaN))
     else (let det = a * d - b * c
           in if det = Fin 0 then Inl LinAlgError
              else Inr ((d / det, (- b) / det), ((- c) / det, a / det))))"

text \<open>The inverse of a stack of matrices: one singular matrix fails the whole call.\<close>

fun linalg_inv :: "mat2 list \<Rightarrow> error + mat2 list" where
  "linalg_inv [] = Inr []"
| "linalg_inv (m # ms) =
     and_then (inv2 m) (\<lambda>i. and_then (linalg_inv ms) (\<lambda>is. Inr (i # is)))"

text \<open>One scene point of \<open>compute_gp_xy_parameters\<close> (lines 724 to 747).\<close>

definition gp_xy_elem :: "vec3 \<Rightarrow> vec3 \<Rightarrow> vec3 \<Rightarrow> vec3 \<Rightarrow> vec3 \<times> vec3 \<times> mat2" where
  "gp_xy_elem pt ugpn bp_pt bpdot_pt =
     (let gx = vsub bp_pt (vtimes ugpn (vsum (vmul bp_pt ugpn)));
          ugx = vdivs gx (norm3 gx);
          sgn_criteria = vsum (vmul ugpn pt);
          sgn = (if gt sgn_criteria (Fin 0) then Fin 1 else Fin (- 1));
          gy = vscale sgn (np_cross ugpn ugx);
          ugy = vdivs gy (norm3 gy);
          m_rrdot_gpxy = mnegative (stack_last (vsum (vmul bp_pt ugx), Fin 0)
                                               (vsum (vmul bpdot_pt ugx), vsum (vmul bpdot_pt ugy)))
      in (ugx, ugy, m_rrdot_gpxy))"

definition compute_gp_xy_parameters ::
  "vec3 list \<Rightarrow> vec3 list \<Rightarrow> vec3 list \<Rightarrow> vec3 list \<Rightarrow> error + ScenePointGpXyParams" where
  "compute_gp_xy_parameters scene_points ugpn bp_points bpdot_points =
     and_then (belem [length scene_points, length ugpn, length bp_points, length bpdot_points]
                 (\<lambda>i. gp_xy_elem (bget scene_points i) (bget ugpn i) (bget bp_points i)
                                  (bget bpdot_points i))) (\<lambda>elems.
     let m_rrdot_gpxy = map (\<lambda>(ugx, ugy, m). m) elems in
     and_then (linalg_inv m_rrdot_gpxy) (\<lambda>m_gpxy_rrdot.
     Inr \<lparr>uGX = map (\<lambda>(ugx, ugy, m). ugx) elems,
          uGY = map (\<lambda>(ugx, ugy, m). ugy) elems,
          M_RRdot_GPXY = m_rrdot_gpxy,
          M_GPXY_RRdot = m_gpxy_rrdot\<rparr>))"

section \<open>Monostatic projection to a ground plane\<close>

text \<open>One projection set of \<open>r_rdot_to_ground_plane_mono\<close> (lines 485 to 512).\<close>

definition r_rdot_to_ground_plane_mono_elem ::
  "npfloat \<Rightarrow> vec3 \<Rightarrow> vec3 \<Rightarrow> npfloat \<Rightarrow> npfloat \<Rightarrow> vec3 \<Rightarrow> vec3 \<Rightarrow> vec3" where
  "r_rdot_to_ground_plane_mono_elem look arp_coa varp_coa r_coa rdot_coa gref uz =
     (let arpz = vsum (vmul (vsub arp_coa gref) uz);
          arpz = (if gt \<bar>arpz\<bar> r_coa then NaN else arpz);
          agpn = vsub arp_coa (vscale arpz uz);
          g = np_sqrt (np_power r_coa 2 - np_power arpz 2);
          cos_graz = g / r_coa;
          sin_graz = arpz / r_coa;
          vz = vsum (vmul varp_coa uz);
          vx = np_sqrt (vsum (vmul varp_coa varp_coa) - np_power vz 2);
          vx = (if feq vx (Fin 0) then NaN else vx);
          ux = vdivs (vsub varp_coa (vscale vz uz)) vx;
          uy = np_cross uz ux;
          cos_az = (- rdot_coa + vz * sin_graz) / (vx * cos_graz);
          cos_az = (if lt cos_az (Fin (- 1)) \<or> gt cos_az (Fin 1) then NaN else cos_az);
          sin_az = look * np_sqrt (Fin 1 - np_power cos_az 2)
      in vadd (vadd agpn (vscale (g * cos_az) ux)) (vscale (g * sin_az) uy))"

text \<open>
  The whole call (lines 475 to 512). The arrays broadcast, with one exception: the
  assignment \<open>arpz[np.abs(arpz) > R_COA] = nan\<close> of line 486 indexes \<open>arpz\<close>, which has
  the leading shape of \<open>ARP_COA\<close>, \<open>gref\<close> and \<open>ugpn\<close>, with a mask that has the leading
  shape of \<open>arpz\<close> and \<open>R_COA\<close>; when \<open>R_COA\<close> has more rows than \<open>arpz\<close> the mask does not
  fit and numpy raises IndexError. The masks of lines 497 and 505 are computed from the
  array they index alone. The checks are in the order of the lines that make them: 485,
  486 (comparison, then indexing), 495, 504 and 508.
\<close>

definition r_rdot_to_ground_plane_mono ::
  "MetadataParams \<Rightarrow> ProjectionSets \<Rightarrow> vec3 list \<Rightarrow> vec3 list \<Rightarrow> error + vec3 list" where
  "r_rdot_to_ground_plane_mono proj_metadata projection_sets gref ugpn =
     and_then (assert_not_None (ProjectionSets.ARP_COA projection_sets)) (\<lambda>arp_coa.
     and_then (assert_not_None (ProjectionSets.VARP_COA projection_sets)) (\<lambda>varp_coa.
     and_then (assert_not_None (ProjectionSets.R_COA projection_sets)) (\<lambda>r_coa.
     and_then (assert_not_None (ProjectionSets.Rdot_COA projection_sets)) (\<lambda>rdot_coa.
     and_then (belem [length arp_coa, length gref, length ugpn] (\<lambda>i. i)) (\<lambda>arpz.
     and_then (belem [length arpz, length r_coa] (\<lambda>i. i)) (\<lambda>no_solution.
     and_then (if length no_solution = length arpz then Inr arpz else Inl IndexError) (\<lambda>arpz.
     and_then (belem [length varp_coa, length ugpn] (\<lambda>i. i)) (\<lambda>vz.
     and_then (belem [length rdot_coa, length vz, length arpz] (\<lambda>i. i)) (\<lambda>indices.
     and_then (look_of (SideOfTrack proj_metadata)) (\<lambda>look.
     Inr (map (\<lambda>i. r_rdot_to_ground_plane_mono_elem look (bget arp_coa i) (bget varp_coa i)
                      (bget r_coa i) (bget rdot_coa i) (bget gref i) (bget ugpn i))
            indices)))))))))))"

section \<open>Bistatic projection to a ground plane\<close>

definition calc_up :: "npfloat \<Rightarrow> npfloat \<Rightarrow> vec3" where
  "calc_up lat_deg lon_deg =
     (np_cos (deg2rad lat_deg) * np_cos (deg2rad lon_deg),
      np_cos (deg2rad lat_deg) * np_sin (deg2rad lon_deg),
      np_sin (deg2rad lat_deg))"

definition norm2 :: "vec2 \<Rightarrow> npfloat" where
  "norm2 v = np_sqrt (fst v * fst v + snd v * snd v)"

text \<open>The local variables of the loop of \<open>r_rdot_to_ground_plane_bi\<close>.\<close>

record bi_state =
  bi_g :: "vec3 list"
  bi_delta_gp :: "npfloat list"
  bi_success :: bool
  bi_above_threshold :: "bool list"

definition only_apcs :: "vec3 list \<Rightarrow> vec3 list \<Rightarrow> vec3 list \<Rightarrow> vec3 list \<Rightarrow> CoaPosVels" where
  "only_apcs xmt vxmt rcv vrcv =
     \<lparr>CoaPosVels.ARP_COA = None, CoaPosVels.VARP_COA = None,
      CoaPosVels.GRP_COA = None, CoaPosVels.tx_COA = None, CoaPosVels.tr_COA = None,
      CoaPosVels.Xmt_COA = Some xmt, CoaPosVels.VXmt_COA = Some vxmt,
      CoaPosVels.Rcv_COA = Some rcv, CoaPosVels.VRcv_COA = Some vrcv\<rparr>"

definition bi_body ::
  "MetadataParams \<Rightarrow> vec3 list \<Rightarrow> vec3 list \<Rightarrow> vec3 list \<Rightarrow> vec3 list \<Rightarrow> vec3 list
     \<Rightarrow> npfloat list \<Rightarrow> npfloat list \<Rightarrow> npfloat \<Rightarrow> bi_state \<Rightarrow> error + bi_state" where
  "bi_body proj_metadata xmt vxmt rcv vrcv ugpn r_avg_coa rdot_avg_coa delta_gp_gpp st =
     (let above_threshold = bi_above_threshold st in
      and_then (compute_pt_r_rdot_parameters proj_metadata
                  (only_apcs (select xmt above_threshold) (select vxmt above_threshold)
                             (select rcv above_threshold) (select vrcv above_threshold))
                  (select (bi_g st) above_threshold)) (\<lambda>pt_r_rdot_params.
      and_then (compute_gp_xy_parameters (select (bi_g st) above_threshold)
                  (select ugpn above_threshold) (bP_PT pt_r_rdot_params)
                  (bPDot_PT pt_r_rdot_params)) (\<lambda>gp_xy_params.
      and_then (mask_index r_avg_coa above_threshold) (\<lambda>r_avg_sel.
      and_then (belem [length r_avg_sel, length (R_Avg_PT pt_r_rdot_params)]
                  (\<lambda>i. bget r_avg_sel i - bget (R_Avg_PT pt_r_rdot_params) i))
        (\<lambda>delta_r_avg.
      and_then (mask_index rdot_avg_coa above_threshold) (\<lambda>rdot_avg_sel.
      and_then (belem [length rdot_avg_sel, length (Rdot_Avg_PT pt_r_rdot_params)]
                  (\<lambda>i. bget rdot_avg_sel i - bget (Rdot_Avg_PT pt_r_rdot_params) i))
        (\<lambda>delta_rdot_avg.
      and_then (belem [length (M_GPXY_RRdot gp_xy_params), length delta_r_avg,
                       length delta_rdot_avg]
                  (\<lambda>i. matvec (bget (M_GPXY_RRdot gp_xy_params) i)
                          (bget delta_r_avg i, bget delta_rdot_avg i))) (\<lambda>delta_gxgy.
      let delta_gp = scatter (bi_delta_gp st) above_threshold (map norm2 delta_gxgy);
          g = scatter (bi_g st) above_threshold
                (map (\<lambda>i. vadd (select (bi_g st) above_threshold ! i)
                           (vadd (vscale (fst (delta_gxgy ! i)) (uGX gp_xy_params ! i))
                                 (vscale (snd (delta_gxgy ! i)) (uGY gp_xy_params ! i))))
                   [0..<length delta_gxgy]);
          above_threshold = map (\<lambda>d. gt d delta_gp_gpp) delta_gp;
          success = list_all (\<lambda>d. le d delta_gp_gpp) delta_gp
      in Inr \<lparr>bi_g = g, bi_delta_gp = delta_gp, bi_success = success,
              bi_above_threshold = above_threshold\<rparr>))))))))"

text \<open>\<open>for _ in range(maxiter)\<close> with \<open>if success: break\<close>.\<close>

fun bi_loop ::
  "nat \<Rightarrow> MetadataParams \<Rightarrow> vec3 list \<Rightarrow> vec3 list \<Rightarrow> vec3 list \<Rightarrow> vec3 list \<Rightarrow> vec3 list
     \<Rightarrow> npfloat list \<Rightarrow> npfloat list \<Rightarrow> npfloat \<Rightarrow> bi_state \<Rightarrow> error + bi_state" where
  "bi_loop 0 proj_metadata xmt vxmt rcv vrcv ugpn r_avg_coa rdot_avg_coa delta_gp_gpp st =
     Inr st"
| "bi_loop (Suc k) proj_metadata xmt vxmt rcv vrcv ugpn r_avg_coa rdot_avg_coa delta_gp_gpp st =
     and_then (bi_body proj_metadata xmt vxmt rcv vrcv ugpn r_avg_coa rdot_avg_coa
                 delta_gp_gpp st) (\<lambda>st'.
     if bi_success st' then Inr st'
     else bi_loop k proj_metadata xmt vxmt rcv vrcv ugpn r_avg_coa rdot_avg_coa
            delta_gp_gpp st')"

definition r_rdot_to_ground_plane_bi ::
  "MetadataParams \<Rightarrow> ProjectionSets \<Rightarrow> vec3 list \<Rightarrow> vec3 list \<Rightarrow> npfloat \<Rightarrow> int
     \<Rightarrow> error + (vec3 list \<times> npfloat list \<times> bool)" where
  "r_rdot_to_ground_plane_bi proj_metadata projection_sets gref ugpn delta_gp_gpp maxiter =
     and_then (assert_not_None (ProjectionSets.Xmt_COA projection_sets)) (\<lambda>xmt_coa.
     and_then (assert_not_None (ProjectionSets.VXmt_COA projection_sets)) (\<lambda>vxmt_coa.
     and_then (assert_not_None (ProjectionSets.Rcv_COA projection_sets)) (\<lambda>rcv_coa.
     and_then (assert_not_None (ProjectionSets.VRcv_COA projection_sets)) (\<lambda>vrcv_coa.
     and_then (assert_not_None (ProjectionSets.R_Avg_COA projection_sets)) (\<lambda>r_avg_coa.
     and_then (assert_not_None (ProjectionSets.Rdot_Avg_COA projection_sets)) (\<lambda>rdot_avg_coa.
     let u_up_scp = calc_up (SCP_Lat proj_metadata) (SCP_Lon proj_metadata) in
     and_then (belem [length gref, length ugpn]
                 (\<lambda>i. vadd (SCP proj_metadata)
                         (vscale (vsum (vmul (vsub (bget gref i) (SCP proj_metadata))
                                             (bget ugpn i))
                                  / vsum (vmul u_up_scp (bget ugpn i))) u_up_scp))) (\<lambda>g_0.
     and_then (belem [length xmt_coa, length vxmt_coa, length rcv_coa, length vrcv_coa,
                      length g_0, length ugpn] (\<lambda>i. i)) (\<lambda>indices.
     let xmt = map (bget xmt_coa) indices;
         vxmt = map (bget vxmt_coa) indices;
         rcv = map (bget rcv_coa) indices;
         vrcv = map (bget vrcv_coa) indices;
         g = map (bget g_0) indices;
         ugpn = map (bget ugpn) indices;
         st = \<lparr>bi_g = g, bi_delta_gp = map (\<lambda>i. NaN) indices, bi_success = False,
               bi_above_threshold = map (\<lambda>i. True) indices\<rparr>
     in
     and_then (bi_loop (nat maxiter) proj_metadata xmt vxmt rcv vrcv ugpn r_avg_coa
                 rdot_avg_coa delta_gp_gpp st) (\<lambda>st.
     Inr (bi_g st, bi_delta_gp st, bi_success st))))))))))"

section \<open>Scene to image\<close>









section \<open>Projection to a surface of constant height\<close>

text \<open>The local variables of the loop of \<open>r_rdot_to_constant_hae_surface\<close>.\<close>

record hae_state =
  hae_gref :: "vec3 list"
  hae_u_gpn :: "vec3 list"
  hae_u_up :: "vec3 list"
  hae_gpp :: "vec3 list"
  hae_delta_hae :: "npfloat list"
  hae_success :: bool
  hae_above_threshold :: "bool list"
  hae_r_rdot_to_plane_success :: "bool list"

text \<open>
  The precise projection to the ground plane of one pass (lines 964 to 1002): the new
  \<open>gpp\<close> and \<open>r_rdot_to_plane_success\<close>. In a monostatic collection \<open>apc1\<close> and \<open>vapc1\<close>
  are the broadcast \<open>arp\<close> and \<open>varp\<close>; in a bistatic one the four arrays are \<open>xmt\<close>,
  \<open>vxmt\<close>, \<open>rcv\<close> and \<open>vrcv\<close>.
\<close>

definition hae_project ::
  "MetadataParams \<Rightarrow> ProjectionSets \<Rightarrow> vec3 list \<Rightarrow> vec3 list \<Rightarrow> vec3 list \<Rightarrow> vec3 list
     \<Rightarrow> npfloat \<Rightarrow> int \<Rightarrow> hae_state \<Rightarrow> error + (vec3 list \<times> bool list)" where
  "hae_project proj_metadata projection_sets apc1 vapc1 apc2 vapc2 bistat_delta_gp_gpp
     bistat_maxiter st =
     (let above_threshold = hae_above_threshold st in
      if is_monostatic proj_metadata then
        and_then (assert_not_None (ProjectionSets.R_COA projection_sets)) (\<lambda>r_coa.
        and_then (assert_not_None (ProjectionSets.Rdot_COA projection_sets)) (\<lambda>rdot_coa.
        and_then (mask_index (ProjectionSets.t_COA projection_sets) above_threshold) (\<lambda>t_sel.
        and_then (mask_index r_coa above_threshold) (\<lambda>r_sel.
        and_then (mask_index rdot_coa above_threshold) (\<lambda>rdot_sel.
        and_then (r_rdot_to_ground_plane_mono proj_metadata
                    \<lparr>ProjectionSets.t_COA = t_sel,
                     ProjectionSets.ARP_COA = Some (select apc1 above_threshold),
                     ProjectionSets.VARP_COA = Some (select vapc1 above_threshold),
                     ProjectionSets.R_COA = Some r_sel,
                     ProjectionSets.Rdot_COA = Some rdot_sel,
                     ProjectionSets.tx_COA = None, ProjectionSets.tr_COA = None,
                     ProjectionSets.Xmt_COA = None, ProjectionSets.VXmt_COA = None,
                     ProjectionSets.Rcv_COA = None, ProjectionSets.VRcv_COA = None,
                     ProjectionSets.R_Avg_COA = None, ProjectionSets.Rdot_Avg_COA = None\<rparr>
                    (select (hae_gref st) above_threshold)
                    (select (hae_u_gpn st) above_threshold)) (\<lambda>res.
        let gpp = scatter (hae_gpp st) above_threshold res
        in Inr (gpp, scatter (hae_r_rdot_to_plane_success st) above_threshold
                       (map vfinite (select gpp above_threshold)))))))))
      else
        and_then (assert_not_None (ProjectionSets.R_Avg_COA projection_sets)) (\<lambda>r_avg_coa.
        and_then (assert_not_None (ProjectionSets.Rdot_Avg_COA projection_sets))
          (\<lambda>rdot_avg_coa.
        and_then (mask_index (ProjectionSets.t_COA projection_sets) above_threshold) (\<lambda>t_sel.
        and_then (mask_index r_avg_coa above_threshold) (\<lambda>r_avg_sel.
        and_then (mask_index rdot_avg_coa above_threshold) (\<lambda>rdot_avg_sel.
        and_then (r_rdot_to_ground_plane_bi proj_metadata
                    \<lparr>ProjectionSets.t_COA = t_sel,
                     ProjectionSets.ARP_COA = None, ProjectionSets.VARP_COA = None,
                     ProjectionSets.R_COA = None, ProjectionSets.Rdot_COA = None,
                     ProjectionSets.tx_COA = None, ProjectionSets.tr_COA = None,
                     ProjectionSets.Xmt_COA = Some (select apc1 above_threshold),
                     ProjectionSets.VXmt_COA = Some (select vapc1 above_threshold),
                     ProjectionSets.Rcv_COA = Some (select apc2 above_threshold),
                     ProjectionSets.VRcv_COA = Some (select vapc2 above_threshold),
                     ProjectionSets.R_Avg_COA = Some r_avg_sel,
                     ProjectionSets.Rdot_Avg_COA = Some rdot_avg_sel\<rparr>
                    (select (hae_gref st) above_threshold)
                    (select (hae_u_gpn st) above_threshold)
                    bistat_delta_gp_gpp bistat_maxiter) (\<lambda>(g_bi, delta_gp_bi, success_bi).
        Inr (scatter (hae_gpp st) above_threshold g_bi,
             scatter (hae_r_rdot_to_plane_success st) above_threshold
               (map (\<lambda>b. success_bi)
                  (select (hae_r_rdot_to_plane_success st) above_threshold))))))))))"

text \<open>
  Modelled from the spec: \<open>sarkit.standards.geocoords\<close> (\<open>ecf_to_geodetic\<close>,
  \<open>geodetic_to_ecf\<close>) is not among the sources; the spec names it as an external
  geodetic library. The conversion of one point, returning latitude, longitude and
  height, is a parameter \<open>ecf_to_geodetic\<close> of the functions below.

  The end of one pass (lines 1004 to 1022), from the new \<open>gpp\<close> and flags. When
  \<open>success\<close> is set the loop is left before \<open>gref\<close> and \<open>u_gpn\<close> are updated.
  The update multiplies \<open>delta_hae[above_threshold]\<close>, of shape \<open>(k,)\<close>, with
  \<open>u_up[above_threshold, :]\<close>, of shape \<open>(k, 3)\<close>, with no new axis: numpy broadcasts
  the trailing axes \<open>k\<close> and \<open>3\<close>, so \<open>k\<close> must be 1 or 3 (\<open>times_1d_2d\<close>).
\<close>

definition times_1d_2d :: "npfloat list \<Rightarrow> vec3 list \<Rightarrow> error + vec3 list" where
  "times_1d_2d d u =
     (if length d = 1 then Inr (map (\<lambda>ui. vscale (d ! 0) ui) u)
      else if length d = 3 then Inr (map (\<lambda>ui. vmul (d ! 0, d ! 1, d ! 2) ui) u)
      else Inl ValueError)"

definition hae_compare ::
  "(vec3 \<Rightarrow> vec3) \<Rightarrow> npfloat list \<Rightarrow> npfloat \<Rightarrow> vec3 list \<Rightarrow> bool list \<Rightarrow> hae_state
     \<Rightarrow> error + hae_state" where
  "hae_compare ecf_to_geodetic hae0 delta_hae_max gpp r_rdot_to_plane_success st =
     (let old_above = hae_above_threshold st;
          gpp_llh = map ecf_to_geodetic (select gpp old_above);
          u_up = scatter (hae_u_up st) old_above
                   (map (\<lambda>(lat, lon, h). calc_up lat lon) gpp_llh);
          delta_hae = scatter (hae_delta_hae st) old_above
                        (map2 (\<lambda>(lat, lon, h) h0. h - h0) gpp_llh (select hae0 old_above));
          above_threshold = map (\<lambda>d. gt d delta_hae_max) delta_hae;
          success = (list_all (\<lambda>d. le d delta_hae_max) delta_hae
                     \<and> list_all (\<lambda>b. b) r_rdot_to_plane_success)
      in
      if success then
        Inr \<lparr>hae_gref = hae_gref st, hae_u_gpn = hae_u_gpn st, hae_u_up = u_up,
             hae_gpp = gpp, hae_delta_hae = delta_hae, hae_success = success,
             hae_above_threshold = above_threshold,
             hae_r_rdot_to_plane_success = r_rdot_to_plane_success\<rparr>
      else
        and_then (times_1d_2d (select delta_hae above_threshold)
                    (select u_up above_threshold)) (\<lambda>delta_up.
        Inr \<lparr>hae_gref = scatter (hae_gref st) above_threshold
                          (map2 vsub (select gpp above_threshold) delta_up),
             hae_u_gpn = scatter (hae_u_gpn st) above_threshold
                           (select u_up above_threshold),
             hae_u_up = u_up, hae_gpp = gpp, hae_delta_hae = delta_hae,
             hae_success = success, hae_above_threshold = above_threshold,
             hae_r_rdot_to_plane_success = r_rdot_to_plane_success\<rparr>))"

definition hae_body ::
  "(vec3 \<Rightarrow> vec3) \<Rightarrow> MetadataParams \<Rightarrow> ProjectionSets \<Rightarrow> vec3 list \<Rightarrow> vec3 list \<Rightarrow> vec3 list
     \<Rightarrow> vec3 list \<Rightarrow> npfloat list \<Rightarrow> npfloat \<Rightarrow> npfloat \<Rightarrow> int \<Rightarrow> hae_state
     \<Rightarrow> error + hae_state" where
  "hae_body ecf_to_geodetic proj_metadata projection_sets apc1 vapc1 apc2 vapc2 hae0
     delta_hae_max bistat_delta_gp_gpp bistat_maxiter st =
     and_then (hae_project proj_metadata projection_sets apc1 vapc1 apc2 vapc2
                 bistat_delta_gp_gpp bistat_maxiter st) (\<lambda>(gpp, r_rdot_to_plane_success).
     hae_compare ecf_to_geodetic hae0 delta_hae_max gpp r_rdot_to_plane_success st)"

fun hae_loop ::
  "nat \<Rightarrow> (vec3 \<Rightarrow> vec3) \<Rightarrow> MetadataParams \<Rightarrow> ProjectionSets \<Rightarrow> vec3 list \<Rightarrow> vec3 list
     \<Rightarrow> vec3 list \<Rightarrow> vec3 list \<Rightarrow> npfloat list \<Rightarrow> npfloat \<Rightarrow> npfloat \<Rightarrow> int \<Rightarrow> hae_state
     \<Rightarrow> error + hae_state" where
  "hae_loop 0 ecf_to_geodetic proj_metadata projection_sets apc1 vapc1 apc2 vapc2 hae0
     delta_hae_max bistat_delta_gp_gpp bistat_maxiter st = Inr st"
| "hae_loop (Suc k) ecf_to_geodetic proj_metadata projection_sets apc1 vapc1 apc2 vapc2 hae0
     delta_hae_max bistat_delta_gp_gpp bistat_maxiter st =
     and_then (hae_body ecf_to_geodetic proj_metadata projection_sets apc1 vapc1 apc2 vapc2
                 hae0 delta_hae_max bistat_delta_gp_gpp bistat_maxiter st) (\<lambda>st'.
     if hae_success st' then Inr st'
     else hae_loop k ecf_to_geodetic proj_metadata projection_sets apc1 vapc1 apc2 vapc2
            hae0 delta_hae_max bistat_delta_gp_gpp bistat_maxiter st')"

text \<open>The broadcast arrays and the initial values of the local variables (lines 931 to 961).\<close>

definition hae_setup ::
  "MetadataParams \<Rightarrow> ProjectionSets \<Rightarrow> npfloat list
     \<Rightarrow> error + (vec3 list \<times> vec3 list \<times> vec3 list \<times> vec3 list \<times> npfloat list \<times> hae_state)"
  where
  "hae_setup proj_metadata projection_sets hae0 =
     (let u_gpn1 = calc_up (SCP_Lat proj_metadata) (SCP_Lon proj_metadata);
          gref1 = map (\<lambda>h. vadd (SCP proj_metadata)
                              (vscale (h - SCP_HAE proj_metadata) u_gpn1)) hae0;
          init = (\<lambda>indices.
                    \<lparr>hae_gref = map (bget gref1) indices, hae_u_gpn = map (\<lambda>i. u_gpn1) indices,
                     hae_u_up = map (\<lambda>i. vnan) indices, hae_gpp = map (\<lambda>i. vnan) indices,
                     hae_delta_hae = map (\<lambda>i. NaN) indices, hae_success = False,
                     hae_above_threshold = map (\<lambda>i. True) indices,
                     hae_r_rdot_to_plane_success = map (\<lambda>i. False) indices\<rparr>)
      in
      if is_monostatic proj_metadata then
        and_then (assert_not_None (ProjectionSets.ARP_COA projection_sets)) (\<lambda>arp_coa.
        and_then (assert_not_None (ProjectionSets.VARP_COA projection_sets)) (\<lambda>varp_coa.
        and_then (belem [length gref1, 1, length arp_coa, length varp_coa] (\<lambda>i. i))
          (\<lambda>indices.
        Inr (map (bget arp_coa) indices, map (bget varp_coa) indices, [], [],
             map (bget hae0) indices, init indices))))
      else
        and_then (assert_not_None (ProjectionSets.Xmt_COA projection_sets)) (\<lambda>xmt_coa.
        and_then (assert_not_None (ProjectionSets.VXmt_COA projection_sets)) (\<lambda>vxmt_coa.
        and_then (assert_not_None (ProjectionSets.Rcv_COA projection_sets)) (\<lambda>rcv_coa.
        and_then (assert_not_None (ProjectionSets.VRcv_COA projection_sets)) (\<lambda>vrcv_coa.
        and_then (belem [length gref1, 1, length xmt_coa, length vxmt_coa, length rcv_coa,
                         length vrcv_coa] (\<lambda>i. i)) (\<lambda>indices.
        Inr (map (bget xmt_coa) indices, map (bget vxmt_coa) indices,
             map (bget rcv_coa) indices, map (bget vrcv_coa) indices,
             map (bget hae0) indices, init indices)))))))"


text \<open>
  The rest of the function (lines 1024 to 1056): the slant plane normal at \<open>gpp\<close>, the
  straight-line projection and the adjustment of the height to \<open>hae0\<close>.
\<close>

definition r_rdot_to_constant_hae_surface ::
  "(vec3 \<Rightarrow> vec3) \<Rightarrow> (vec3 \<Rightarrow> vec3) \<Rightarrow> MetadataParams \<Rightarrow> ProjectionSets \<Rightarrow> npfloat list
     \<Rightarrow> npfloat \<Rightarrow> int \<Rightarrow> npfloat \<Rightarrow> int \<Rightarrow> error + (vec3 list \<times> npfloat list \<times> bool)" where
  "r_rdot_to_constant_hae_surface ecf_to_geodetic geodetic_to_ecf proj_metadata
     projection_sets hae0 delta_hae_max nlim bistat_delta_gp_gpp bistat_maxiter =
     and_then (hae_setup proj_metadata projection_sets hae0)
       (\<lambda>(apc1, vapc1, apc2, vapc2, hae0, st0).
     and_then (hae_loop (nat nlim) ecf_to_geodetic proj_metadata projection_sets apc1 vapc1
                 apc2 vapc2 hae0 delta_hae_max bistat_delta_gp_gpp bistat_maxiter st0) (\<lambda>st.
     and_then (look_of (SideOfTrack proj_metadata)) (\<lambda>look.
     and_then
       (if is_monostatic proj_metadata then
          Inr (map (\<lambda>spn. vdivs spn (norm3 spn))
                 (map2 (\<lambda>varp (gp, arp). vscale look (np_cross varp (vsub gp arp)))
                    vapc1 (zip (hae_gpp st) apc1)))
        else
          and_then (compute_pt_r_rdot_parameters proj_metadata
                      \<lparr>CoaPosVels.ARP_COA = None, CoaPosVels.VARP_COA = None,
                       CoaPosVels.GRP_COA = None, CoaPosVels.tx_COA = None,
                       CoaPosVels.tr_COA = None,
                       CoaPosVels.Xmt_COA = ProjectionSets.Xmt_COA projection_sets,
                       CoaPosVels.VXmt_COA = ProjectionSets.VXmt_COA projection_sets,
                       CoaPosVels.Rcv_COA = ProjectionSets.Rcv_COA projection_sets,
                       CoaPosVels.VRcv_COA = ProjectionSets.VRcv_COA projection_sets\<rparr>
                      (hae_gpp st)) (\<lambda>gpp_r_rdot_params.
          Inr (uSPN_PT gpp_r_rdot_params))) (\<lambda>u_spn.
     and_then (belem [length (hae_u_up st), length u_spn]
                 (\<lambda>i. let sf = vsum (vmul (bget (hae_u_up st) i) (bget u_spn i))
                      in vsub (bget (hae_gpp st) i)
                           (vdivs (vscale (bget (hae_delta_hae st) i) (bget u_spn i)) sf)))
       (\<lambda>slp.
     let slp_llh = map ecf_to_geodetic slp;
         spp_llh = map2 (\<lambda>(lat, lon, h) h0. (lat, lon, h0)) slp_llh hae0;
         spp_tgt = map geodetic_to_ecf spp_llh
     in Inr (spp_tgt, hae_delta_hae st, hae_success st))))))"

section \<open>Example collections\<close>

text \<open>
  A monostatic RGAZIM/PFA collection: the identity scenario of the spec (orthogonal unit
  row and column vectors, SCP at the origin, the ARP 100 km above it).
\<close>

definition vzero :: vec3 where
  "vzero = (Fin 0, Fin 0, Fin 0)"

definition example_mono :: MetadataParams where
  "example_mono =
     \<lparr>Collect_Type = MONOSTATIC, SCP = vzero,
      SCP_Lat = Fin 0, SCP_Lon = Fin 0, SCP_HAE = Fin 0,
      uRow = (Fin 1, Fin 0, Fin 0), uCol = (Fin 0, Fin 1, Fin 0),
      SideOfTrack = ''R'', Grid_Type = ''RGAZIM'', IFA = ''PFA'',
      cT_COA = [[Fin 0]], ARP_Poly = [(Fin 0, Fin 0, Fin 100000)],
      Xmt_Poly = [], Rcv_Poly = [], GRP_Poly = [],
      cPA = [Fin 0], cKSF = [Fin 1],
      ARP_SCP_COA = (Fin 0, Fin 0, Fin 100000), VARP_SCP_COA = (Fin 0, Fin 100, Fin 0),
      Xmt_SCP_COA = vzero, VXmt_SCP_COA = vzero, Rcv_SCP_COA = vzero,
      VRcv_SCP_COA = vzero\<rparr>"

definition no_coa_pos_vels :: CoaPosVels where
  "no_coa_pos_vels =
     \<lparr>CoaPosVels.ARP_COA = None, CoaPosVels.VARP_COA = None,
      CoaPosVels.GRP_COA = None, CoaPosVels.tx_COA = None, CoaPosVels.tr_COA = None,
      CoaPosVels.Xmt_COA = None, CoaPosVels.VXmt_COA = None, CoaPosVels.Rcv_COA = None,
      CoaPosVels.VRcv_COA = None\<rparr>"

text \<open>
  A bistatic collection: the GRP at the origin, the transmitter on the x axis and the
  receiver on the y axis, both at distance \<open>t\<close> metres at time \<open>t\<close>.
\<close>

definition example_bi :: MetadataParams where
  "example_bi =
     example_mono\<lparr>Collect_Type := BISTATIC, GRP_Poly := [vzero],
       Xmt_Poly := [vzero, (Fin 1, Fin 0, Fin 0)],
       Rcv_Poly := [vzero, (Fin 0, Fin 1, Fin 0)]\<rparr>"

text \<open>
  Two monostatic projection sets: the first out of reach of the plane \<open>z = 0\<close> (the ARP
  is 5 m above it, the range is 1 m), the second in the plane.
\<close>

definition example_projection_sets :: ProjectionSets where
  "example_projection_sets =
     \<lparr>ProjectionSets.t_COA = [Fin 0, Fin 0],
      ProjectionSets.ARP_COA = Some [(Fin 0, Fin 0, Fin 5), (Fin 0, Fin 0, Fin 0)],
      ProjectionSets.VARP_COA = Some [(Fin 1, Fin 0, Fin 0), (Fin 1, Fin 0, Fin 0)],
      ProjectionSets.R_COA = Some [Fin 1, Fin 1],
      ProjectionSets.Rdot_COA = Some [Fin 0, Fin 0],
      ProjectionSets.tx_COA = None, ProjectionSets.tr_COA = None,
      ProjectionSets.Xmt_COA = None, ProjectionSets.VXmt_COA = None,
      ProjectionSets.Rcv_COA = None, ProjectionSets.VRcv_COA = None,
      ProjectionSets.R_Avg_COA = None, ProjectionSets.Rdot_Avg_COA = None\<rparr>"





lemma np_power_2: "np_power x 2 = x * x"
  by (cases x) (simp_all add: np_power_def numeral_2_eq_2)

section \<open>Arithmetic of float64 values and vectors\<close>

lemma mul_one_left [simp]: "Fin 1 * x = x"
  by (cases x) simp_all

lemma mul_minus_one_left [simp]: "Fin (- 1) * x = - x"
  by (cases x) simp_all

lemma neg_mul_neg [simp]: "(- a) * (- b) = a * (b :: npfloat)"
  by (cases a; cases b) (auto simp: zero_less_mult_iff mult_less_0_iff not_less)

lemma neg_div_left: "(- a) / s = - (a / (s :: npfloat))"
  by (cases a; cases s) auto

lemma vscale_one [simp]: "vscale (Fin 1) v = v"
  by (cases v) simp

lemma vscale_minus_one [simp]: "vscale (Fin (- 1)) v = vneg v"
  by (cases v) simp

lemma norm3_vneg [simp]: "norm3 (vneg v) = norm3 v"
  by (cases v) (simp add: norm3_def)

lemma vdivs_vneg: "vdivs (vneg v) s = vneg (vdivs v s)"
  by (cases v) (simp add: neg_div_left)

lemma np_power_m2: "np_power x (- 2) = Fin 1 / (x * x)"
  by (cases x) (simp_all add: np_power_def numeral_2_eq_2)

lemma isfinite_Fin: "isfinite x \<longleftrightarrow> (\<exists>r. x = Fin r)"
  by (cases x) simp_all

lemma vfinite_Fin: "vfinite v \<longleftrightarrow> (\<exists>a b c. v = (Fin a, Fin b, Fin c))"
  by (cases v) (auto simp: vfinite_def isfinite_Fin)

lemma norm3_Fin: "norm3 (Fin a, Fin b, Fin c) = Fin (sqrt (a * a + b * b + c * c))"
proof -
  have "0 \<le> a * a + b * b + c * c" by (simp add: add_nonneg_nonneg)
  then show ?thesis by (simp add: norm3_def not_less)
qed

lemma unit_Fin: "norm3 (Fin a, Fin b, Fin c) = Fin 1 \<longleftrightarrow> a * a + b * b + c * c = 1"
  by (simp add: norm3_Fin)

lemma lagrange3:
  fixes a1 a2 a3 b1 b2 b3 :: real
  shows "(a2 * b3 - a3 * b2)\<^sup>2 + (a3 * b1 - a1 * b3)\<^sup>2 + (a1 * b2 - a2 * b1)\<^sup>2
       = (a1 * a1 + a2 * a2 + a3 * a3) * (b1 * b1 + b2 * b2 + b3 * b3)
         - (a1 * b1 + a2 * b2 + a3 * b3)\<^sup>2"
  by (simp add: power2_eq_square algebra_simps)

lemma grid_of_plane_of_grid:
  "image_plane_point_to_image_grid m (image_grid_to_image_plane_point m Ls)
   = map (\<lambda>L. hd (image_plane_point_to_image_grid m (image_grid_to_image_plane_point m [L]))) Ls"
  by (simp add: image_plane_point_to_image_grid_def image_grid_to_image_plane_point_def
      Let_def zip_map_map zip_same_conv_map comp_def)

lemma roundtrip_elem:
  fixes a1 a2 a3 b1 b2 b3 s1 s2 s3 x y :: real
  assumes u: "uRow m = (Fin a1, Fin a2, Fin a3)" and v: "uCol m = (Fin b1, Fin b2, Fin b3)"
    and s: "SCP m = (Fin s1, Fin s2, Fin s3)"
    and nu: "a1 * a1 + a2 * a2 + a3 * a3 = 1" and nv: "b1 * b1 + b2 * b2 + b3 * b3 = 1"
    and nc: "(a2 * b3 - a3 * b2, a3 * b1 - a1 * b3, a1 * b2 - a2 * b1) \<noteq> (0, 0, 0)"
  shows "image_plane_point_to_image_grid m (image_grid_to_image_plane_point m [(Fin x, Fin y)])
         = [(Fin x, Fin y)]"
proof -
  define c where "c = a1 * b1 + a2 * b2 + a3 * b3"
  have "0 < (a2 * b3 - a3 * b2)\<^sup>2 + (a3 * b1 - a1 * b3)\<^sup>2 + (a1 * b2 - a2 * b1)\<^sup>2"
    using nc by (auto simp: sum_power2_gt_zero_iff add_pos_nonneg add_nonneg_pos)
  then have "0 < (a1 * a1 + a2 * a2 + a3 * a3) * (b1 * b1 + b2 * b2 + b3 * b3)
         - (a1 * b1 + a2 * b2 + a3 * b3)\<^sup>2"
    by (simp only: lagrange3)
  then have pos: "0 < 1 - c * c"
    by (simp add: nu nv c_def power2_eq_square)
  have sq: "sqrt (1 - c * c) * sqrt (1 - c * c) = 1 - c * c"
    using pos by simp
  have ne: "1 - c * c \<noteq> 0" using pos by simp
  have cdef: "a1 * b1 + a2 * b2 + a3 * b3 = c" by (simp add: c_def)
  have d1: "(x * a1 + y * b1) * a1 + (x * a2 + y * b2) * a2
            + (x * a3 + y * b3) * a3 = x + y * c"
  proof -
    have "(x * a1 + y * b1) * a1 + (x * a2 + y * b2) * a2
            + (x * a3 + y * b3) * a3
          = x * (a1 * a1 + a2 * a2 + a3 * a3) + y * (a1 * b1 + a2 * b2 + a3 * b3)"
      by (simp add: algebra_simps)
    then show ?thesis by (simp only: nu cdef mult_1_right)
  qed
  have d2: "(x * a1 + y * b1) * b1 + (x * a2 + y * b2) * b2
            + (x * a3 + y * b3) * b3 = x * c + y"
  proof -
    have "(x * a1 + y * b1) * b1 + (x * a2 + y * b2) * b2
            + (x * a3 + y * b3) * b3
          = x * (a1 * b1 + a2 * b2 + a3 * b3) + y * (b1 * b1 + b2 * b2 + b3 * b3)"
      by (simp add: algebra_simps)
    then show ?thesis by (simp only: nv cdef mult_1_right)
  qed
  define k where "k = 1 / (1 - c * c)"
  have k: "k * (1 - c * c) = 1" using ne by (simp add: k_def)
  have r1: "k * (x + y * c) - k * c * (x * c + y) = x"
  proof -
    have "k * (x + y * c) - k * c * (x * c + y) = x * (k * (1 - c * c))"
      by (simp add: algebra_simps)
    then show ?thesis by (simp only: k mult_1_right)
  qed
  have r2: "k * (x * c + y) - k * c * (x + y * c) = y"
  proof -
    have "k * (x * c + y) - k * c * (x + y * c) = y * (k * (1 - c * c))"
      by (simp add: algebra_simps)
    then show ?thesis by (simp only: k mult_1_right)
  qed
  show ?thesis
    using pos
    by (simp add: image_plane_point_to_image_grid_def image_grid_to_image_plane_point_def
        Let_def u v s np_dot_def np_power_2 np_power_m2 minus_npfloat_def cdef sq ne d1 d2
        k_def [symmetric] r1 r2 not_less)
qed

section \<open>Image grid to image plane and back\<close>

text \<open>
  The two conversions are inverse to each other as formulas over the real numbers: with
  exact arithmetic, unit-length and non-collinear \<open>uRow\<close> and \<open>uCol\<close> and finite
  numbers, the round trip returns the grid locations it started from. This is a statement
  about the formulas only. The tolerance of 1e-9 m of claim C1 bounds the rounding error
  of the float64 computation, which grows with the magnitude of \<open>SCP\<close> (the sum
  \<open>SCP + delta\<close> is rounded to the spacing of float64 numbers at \<open>SCP\<close>); rounding is
  outside this model, and nothing here states or supports that bound.
\<close>

lemma image_grid_roundtrip_exact:
  assumes "vfinite (uRow m)" "vfinite (uCol m)" "vfinite (SCP m)"
    and "norm3 (uRow m) = Fin 1" "norm3 (uCol m) = Fin 1"
    and "np_cross (uRow m) (uCol m) \<noteq> vzero"
    and "\<forall>L \<in> set Ls. isfinite (fst L) \<and> isfinite (snd L)"
  shows "image_plane_point_to_image_grid m (image_grid_to_image_plane_point m Ls) = Ls"
proof -
  obtain a1 a2 a3 where u: "uRow m = (Fin a1, Fin a2, Fin a3)"
    using assms(1) by (auto simp: vfinite_Fin)
  obtain b1 b2 b3 where v: "uCol m = (Fin b1, Fin b2, Fin b3)"
    using assms(2) by (auto simp: vfinite_Fin)
  obtain s1 s2 s3 where s: "SCP m = (Fin s1, Fin s2, Fin s3)"
    using assms(3) by (auto simp: vfinite_Fin)
  have nu: "a1 * a1 + a2 * a2 + a3 * a3 = 1" using assms(4) by (simp add: u unit_Fin)
  have nv: "b1 * b1 + b2 * b2 + b3 * b3 = 1" using assms(5) by (simp add: v unit_Fin)
  have nc: "(a2 * b3 - a3 * b2, a3 * b1 - a1 * b3, a1 * b2 - a2 * b1) \<noteq> (0, 0, 0)"
    using assms(6) by (simp add: u v vzero_def minus_npfloat_def)
  have "hd (image_plane_point_to_image_grid m (image_grid_to_image_plane_point m [L])) = L"
    if "L \<in> set Ls" for L
  proof -
    from assms(7) that have "isfinite (fst L)" "isfinite (snd L)" by auto
    then obtain x y where "fst L = Fin x" "snd L = Fin y"
      by (auto simp: isfinite_Fin)
    then have L: "L = (Fin x, Fin y)" by (cases L) simp
    show ?thesis
      unfolding L using roundtrip_elem [OF u v s nu nv nc] by simp
  qed
  then have "map (\<lambda>L. hd (image_plane_point_to_image_grid m
      (image_grid_to_image_plane_point m [L]))) Ls = map (\<lambda>L. L) Ls"
    by (intro map_cong) simp_all
  then show ?thesis
    by (simp add: grid_of_plane_of_grid [of m Ls])
qed

section \<open>Side of track\<close>

text \<open>
  Claim C9. With every other field fixed, the unit normal that
  \<open>compute_scp_coa_slant_plane_normal\<close> returns for SideOfTrack R is the negation of the
  one it returns for SideOfTrack L, for monostatic and bistatic metadata alike; the look
  sign is +1 for L and -1 for R.
\<close>
theorem side_of_track_negates_normal:
  "\<exists>n. compute_scp_coa_slant_plane_normal (m\<lparr>SideOfTrack := ''L''\<rparr>) = Inr n
     \<and> compute_scp_coa_slant_plane_normal (m\<lparr>SideOfTrack := ''R''\<rparr>) = Inr (vneg n)
     \<and> look_of ''L'' = Inr (Fin 1) \<and> look_of ''R'' = Inr (Fin (- 1))"
  by (simp add: compute_scp_coa_slant_plane_normal_def look_of_def and_then_def
      is_monostatic_def scp_r_rdot_projection_contour_bistatic_def Let_def vdivs_vneg)

theorem side_of_track_negates_normal_witness:
  "compute_scp_coa_slant_plane_normal
     (example_mono\<lparr>ARP_SCP_COA := (Fin 0, Fin 0, Fin 1), VARP_SCP_COA := (Fin 0, Fin 1, Fin 0),
        SideOfTrack := ''L''\<rparr>) = Inr (Fin (- 1), Fin 0, Fin 0)
   \<and> compute_scp_coa_slant_plane_normal
     (example_mono\<lparr>ARP_SCP_COA := (Fin 0, Fin 0, Fin 1), VARP_SCP_COA := (Fin 0, Fin 1, Fin 0),
        SideOfTrack := ''R''\<rparr>) = Inr (Fin 1, Fin 0, Fin 0)"
proof -
  let ?m = "example_mono\<lparr>ARP_SCP_COA := (Fin 0, Fin 0, Fin 1),
                         VARP_SCP_COA := (Fin 0, Fin 1, Fin 0)\<rparr>"
  obtain n where L: "compute_scp_coa_slant_plane_normal (?m\<lparr>SideOfTrack := ''L''\<rparr>) = Inr n"
    and R: "compute_scp_coa_slant_plane_normal (?m\<lparr>SideOfTrack := ''R''\<rparr>) = Inr (vneg n)"
    using side_of_track_negates_normal [of ?m] by blast
  have "compute_scp_coa_slant_plane_normal (?m\<lparr>SideOfTrack := ''L''\<rparr>)
        = Inr (Fin (- 1), Fin 0, Fin 0)"
    by (simp add: compute_scp_coa_slant_plane_normal_def look_of_def and_then_def
        is_monostatic_def example_mono_def vzero_def Let_def norm3_Fin minus_npfloat_def)
  with L have n: "n = (Fin (- 1), Fin 0, Fin 0)" by simp
  show ?thesis using L R by (simp add: n)
qed

section \<open>Dispatch on grid type and image formation algorithm\<close>

lemma not_pfa_never_returns:
  assumes "\<not> (Grid_Type m = ''RGAZIM'' \<and> IFA m = ''PFA'')"
  shows "\<exists>e. compute_coa_r_rdot m igl t cpv = Inl e"
  using assms
  by (auto simp: compute_coa_r_rdot_def select_r_rdot_func_def call_r_rdot_func_def
      r_rdot_from_rgzero_def r_rdot_from_xrgycr_def r_rdot_from_xctyat_def
      r_rdot_from_plane_def r_rdot_from_rgazim_rgazcomp_def
      split: option.splits r_rdot_func.splits if_splits)

text \<open>
  Claim C5. For the grid types RGZERO, XRGYCR, XCTYAT and PLANE, and for RGAZIM with
  RGAZCOMP, \<open>compute_coa_r_rdot\<close> never returns a result. The exception is not the one
  the selected function is written to raise: the function is declared with no parameter
  and called with four arguments, so the call raises TypeError before the body
  (\<open>raise NotImplementedError\<close>) runs.
\<close>
theorem unsupported_grid_raises_TypeError:
  assumes "Grid_Type m \<in> {''RGZERO'', ''XRGYCR'', ''XCTYAT'', ''PLANE''}
           \<or> (Grid_Type m = ''RGAZIM'' \<and> IFA m = ''RGAZCOMP'')"
  shows "compute_coa_r_rdot m igl t cpv = Inl TypeError"
  using assms
  by (auto simp: compute_coa_r_rdot_def select_r_rdot_func_def call_r_rdot_func_def
      r_rdot_from_rgzero_def r_rdot_from_xrgycr_def r_rdot_from_xctyat_def
      r_rdot_from_plane_def r_rdot_from_rgazim_rgazcomp_def)

theorem unsupported_grid_raises_TypeError_witness:
  "compute_coa_r_rdot (example_mono\<lparr>Grid_Type := ''PLANE''\<rparr>) [(Fin 0, Fin 0)] [Fin 0]
     no_coa_pos_vels = Inl TypeError"
  using unsupported_grid_raises_TypeError [of "example_mono\<lparr>Grid_Type := ''PLANE''\<rparr>"
      "[(Fin 0, Fin 0)]" "[Fin 0]" no_coa_pos_vels]
  by simp

section \<open>Collinear row and column vectors\<close>

text \<open>
  When the computed cosine is exactly 1 or -1 the sine is 0, \<open>sin_theta_col ** (-2)\<close>
  is inf (a warning, not an exception), the entries of the matrix are inf and -inf, and
  every returned coordinate is a sum of two products with an infinite factor: inf, -inf
  or NaN.
\<close>

lemma not_finite_inf_mul: "\<not> isfinite (PInf * x)" "\<not> isfinite (NInf * x)"
  by (cases x; simp)+

lemma not_finite_add: "\<not> isfinite a \<Longrightarrow> \<not> isfinite b \<Longrightarrow> \<not> isfinite (a + b)"
  by (cases a; cases b) simp_all

lemma plane_to_grid_unit_cos:
  assumes "np_dot (uRow m) (uCol m) = Fin 1 \<or> np_dot (uRow m) (uCol m) = Fin (- 1)"
    and "il \<in> set (image_plane_point_to_image_grid m pts)"
  shows "\<not> isfinite (fst il) \<and> \<not> isfinite (snd il)"
  using assms
  by (auto simp: image_plane_point_to_image_grid_def Let_def np_power_2 np_power_m2
      minus_npfloat_def not_finite_inf_mul not_finite_add)

text \<open>
  Claim C6, amended. For \<open>uRow\<close> and \<open>uCol\<close> collinear, as for any other metadata,
  \<open>image_plane_point_to_image_grid\<close> does not fail: it has no check of the geometry,
  and it returns one grid location for each image plane point. The returned numbers are
  not meaningful; when the computed \<open>cos_theta_col\<close> is exactly 1 or -1, every returned
  coordinate is inf, -inf or NaN.
\<close>
theorem plane_to_grid_collinear_returns_values:
  "length (image_plane_point_to_image_grid m pts) = length pts
   \<and> (np_dot (uRow m) (uCol m) = Fin 1 \<or> np_dot (uRow m) (uCol m) = Fin (- 1)
        \<longrightarrow> list_all (\<lambda>il. \<not> isfinite (fst il) \<and> \<not> isfinite (snd il))
              (image_plane_point_to_image_grid m pts))"
proof -
  have "length (image_plane_point_to_image_grid m pts) = length pts"
    by (simp add: image_plane_point_to_image_grid_def Let_def)
  then show ?thesis
    using plane_to_grid_unit_cos [of m _ pts] by (auto simp: list_all_iff)
qed

theorem plane_to_grid_collinear_returns_values_witness:
  "np_dot (uRow (example_mono\<lparr>uCol := (Fin (- 1), Fin 0, Fin 0)\<rparr>))
          (uCol (example_mono\<lparr>uCol := (Fin (- 1), Fin 0, Fin 0)\<rparr>)) = Fin (- 1)
   \<and> length (image_plane_point_to_image_grid (example_mono\<lparr>uCol := (Fin (- 1), Fin 0, Fin 0)\<rparr>)
        [(Fin 1, Fin 2, Fin 3), (Fin 4, Fin 0, Fin (- 2))]) = 2
   \<and> list_all (\<lambda>il. \<not> isfinite (fst il) \<and> \<not> isfinite (snd il))
       (image_plane_point_to_image_grid (example_mono\<lparr>uCol := (Fin (- 1), Fin 0, Fin 0)\<rparr>)
          [(Fin 1, Fin 2, Fin 3), (Fin 4, Fin 0, Fin (- 2))])"
  using plane_to_grid_collinear_returns_values
    [of "example_mono\<lparr>uCol := (Fin (- 1), Fin 0, Fin 0)\<rparr>"
      "[(Fin 1, Fin 2, Fin 3), (Fin 4, Fin 0, Fin (- 2))]"]
  by (simp add: example_mono_def np_dot_def)

text \<open>
  Claim C6 as stated fails: with \<open>uRow = uCol = (1, 0, 0)\<close> the call raises nothing and
  returns a value.
\<close>
theorem plane_to_grid_collinear_counterexample:
  "image_plane_point_to_image_grid (example_mono\<lparr>uCol := (Fin 1, Fin 0, Fin 0)\<rparr>)
     [(Fin 5, Fin 7, Fin 0)] = [(NaN, NaN)]"
  by (simp add: image_plane_point_to_image_grid_def example_mono_def vzero_def Let_def
      np_dot_def np_power_2 np_power_m2 minus_npfloat_def)

section \<open>The contour at the scene centre point\<close>

lemma add_zero_right [simp]: "x + Fin 0 = x"
  by (cases x) simp_all

lemma add_zero_left [simp]: "Fin 0 + x = x"
  by (cases x) simp_all

lemma polyder_nonempty: "c \<noteq> [] \<Longrightarrow> polyder c \<noteq> []"
  by (cases c) (auto simp: polyder_def not_le)

lemma bget_same [simp]: "i < length xs \<Longrightarrow> bget xs i = xs ! i"
  by (auto simp: bget_def)

lemma belem_Some: "bshape lens = Some n \<Longrightarrow> belem lens f = Inr (map f [0..<n])"
  by (simp add: belem_def)

text \<open>
  With \<open>rg = az = 0\<close> and finite values of the four polynomials, the phase slopes and
  the delta terms are zero. Only \<open>0 * x = 0\<close> for finite \<open>x\<close> and \<open>0 + 0 = 0\<close> are used
  of the arithmetic.
\<close>

lemma rgazim_pfa_delta_origin:
  "isfinite theta \<Longrightarrow> isfinite dtheta_dt \<Longrightarrow> isfinite ksf \<Longrightarrow> isfinite dksf_dtheta
   \<Longrightarrow> rgazim_pfa_delta (Fin 0) (Fin 0) theta dtheta_dt ksf dksf_dtheta = (Fin 0, Fin 0)"
  by (auto simp: rgazim_pfa_delta_def Let_def isfinite_Fin)

lemma bshape_members: "bshape ls = Some n \<Longrightarrow> l \<in> set ls \<Longrightarrow> l = n \<or> l = 1"
proof (induction ls arbitrary: n)
  case Nil
  then show ?case by simp
next
  case (Cons a ls)
  then obtain k where k: "bshape ls = Some k" "bjoin a k = Some n"
    by (auto split: option.splits)
  show ?case
  proof (cases "l = a")
    case True
    then show ?thesis using k(2) by (auto simp: bjoin_def split: if_splits)
  next
    case False
    then have "l \<in> set ls" using Cons.prems(2) by simp
    then have "l = k \<or> l = 1" using Cons.IH [OF k(1)] by simp
    then show ?thesis using k(2) by (auto simp: bjoin_def split: if_splits)
  qed
qed

text \<open>Row \<open>i\<close> of an array that is broadcast to \<open>n\<close> rows.\<close>

lemma bget_map: "length xs = n \<or> length xs = 1 \<Longrightarrow> i < n \<Longrightarrow> bget (map f xs) i = f (bget xs i)"
  by (auto simp: bget_def)

lemma bget_upt:
  "nd = n \<or> nd = 1 \<Longrightarrow> i < n \<Longrightarrow> bget (map f [0..<nd]) i = f (if nd = 1 then 0 else i)"
  by (auto simp: bget_def)

lemma bget_index:
  "length xs = nd \<or> length xs = 1 \<Longrightarrow> bget xs (if nd = 1 then 0 else i) = bget xs i"
  by (auto simp: bget_def)

text \<open>
  Claim C8, amended. For Grid_Type RGAZIM and IFA PFA, every COA position and velocity
  ensemble (monostatic or bistatic, with reference values \<open>r_scp\<close> and \<open>rdot_scp\<close> from
  \<open>rgazim_pfa_scp\<close>) and arrays of conformant shapes, the call returns, and at every
  element whose grid location is (0, 0) and at whose COA time the polar angle \<open>theta\<close>,
  its derivative, the scale factor \<open>ksf\<close> and its derivative evaluate to finite numbers,
  the range and range rate are exactly the reference values of that element. The other
  elements of the batch are arbitrary.
\<close>
theorem rgazim_pfa_at_scp:
  assumes grid: "Grid_Type m = ''RGAZIM''" "IFA m = ''PFA''"
    and scp: "rgazim_pfa_scp m cpv = Inr (r_scp, rdot_scp)"
    and ne: "cPA m \<noteq> []" "cKSF m \<noteq> []"
    and shape: "bshape [length igl, length t_coa] = Some nd"
      "bshape [length r_scp, nd] = Some nr" "bshape [length rdot_scp, nd] = Some nrd"
  shows "\<exists>r rdot. compute_coa_r_rdot m igl t_coa cpv = Inr (r, rdot)
           \<and> length r = nr \<and> length rdot = nrd
           \<and> (\<forall>i. bget igl i = (Fin 0, Fin 0)
                 \<and> isfinite (horner (bget t_coa i) (cPA m))
                 \<and> isfinite (horner (bget t_coa i) (polyder (cPA m)))
                 \<and> isfinite (horner (horner (bget t_coa i) (cPA m)) (cKSF m))
                 \<and> isfinite (horner (horner (bget t_coa i) (cPA m)) (polyder (cKSF m)))
                 \<longrightarrow> (i < nr \<longrightarrow> r ! i = bget r_scp i)
                   \<and> (i < nrd \<longrightarrow> rdot ! i = bget rdot_scp i))"
proof -
  have li: "length igl = nd \<or> length igl = 1" and lt: "length t_coa = nd \<or> length t_coa = 1"
    using bshape_members [OF shape(1)] by simp_all
  have nr: "nd = nr \<or> nd = 1" and nrd: "nd = nrd \<or> nd = 1"
    using bshape_members [OF shape(2)] bshape_members [OF shape(3)] by simp_all
  have pne: "polyder (cPA m) \<noteq> []" "polyder (cKSF m) \<noteq> []"
    using ne by (simp_all add: polyder_nonempty)
  let ?d = "\<lambda>i. rgazim_pfa_delta (fst (bget igl i)) (snd (bget igl i))
      (horner (bget t_coa i) (cPA m)) (horner (bget t_coa i) (polyder (cPA m)))
      (horner (horner (bget t_coa i) (cPA m)) (cKSF m))
      (horner (horner (bget t_coa i) (cPA m)) (polyder (cKSF m)))"
  let ?raw = "\<lambda>i. rgazim_pfa_delta (bget (map fst igl) i) (bget (map snd igl) i)
      (bget (map (\<lambda>xi. horner xi (cPA m)) t_coa) i)
      (bget (map (\<lambda>xi. horner xi (polyder (cPA m))) t_coa) i)
      (bget (map (\<lambda>x. horner (horner x (cPA m)) (cKSF m)) t_coa) i)
      (bget (map (\<lambda>x. horner (horner x (cPA m)) (polyder (cKSF m))) t_coa) i)"
  have raw: "map ?raw [0..<nd] = map ?d [0..<nd]"
    using li lt by (intro map_cong) (simp_all add: bget_map [where n = nd])
  have "r_rdot_from_rgazim_pfa m igl t_coa cpv
      = Inr (map (\<lambda>i. bget r_scp i + fst (bget (map ?raw [0..<nd]) i)) [0..<nr],
             map (\<lambda>i. bget rdot_scp i + snd (bget (map ?raw [0..<nd]) i)) [0..<nrd])"
    by (simp add: r_rdot_from_rgazim_pfa_def Let_def and_then_def scp polyval_def ne pne
        belem_Some [OF shape(1)] belem_Some [OF shape(2)] belem_Some [OF shape(3)]
        comp_def del: bshape.simps)
  then have "r_rdot_from_rgazim_pfa m igl t_coa cpv
      = Inr (map (\<lambda>i. bget r_scp i + fst (bget (map ?d [0..<nd]) i)) [0..<nr],
             map (\<lambda>i. bget rdot_scp i + snd (bget (map ?d [0..<nd]) i)) [0..<nrd])"
    by (simp only: raw)
  then have run: "compute_coa_r_rdot m igl t_coa cpv
      = Inr (map (\<lambda>i. bget r_scp i + fst (bget (map ?d [0..<nd]) i)) [0..<nr],
             map (\<lambda>i. bget rdot_scp i + snd (bget (map ?d [0..<nd]) i)) [0..<nrd])"
    by (simp add: compute_coa_r_rdot_def select_r_rdot_func_def call_r_rdot_func_def grid)
  have idx: "bget igl (if nd = 1 then 0 else i) = bget igl i"
    "bget t_coa (if nd = 1 then 0 else i) = bget t_coa i" for i
    by (rule bget_index [OF li], rule bget_index [OF lt])
  have row: "bget (map ?d [0..<nd]) i = ?d i" if "i < n" "nd = n \<or> nd = 1" for i n
    using bget_upt [OF that(2,1), of ?d] by (simp only: idx)
  have zero: "?d i = (Fin 0, Fin 0)"
    if "bget igl i = (Fin 0, Fin 0)" "isfinite (horner (bget t_coa i) (cPA m))"
      "isfinite (horner (bget t_coa i) (polyder (cPA m)))"
      "isfinite (horner (horner (bget t_coa i) (cPA m)) (cKSF m))"
      "isfinite (horner (horner (bget t_coa i) (cPA m)) (polyder (cKSF m)))" for i
    using that by (simp add: rgazim_pfa_delta_origin)
  show ?thesis
    unfolding run using row [OF _ nr] row [OF _ nrd] zero by auto
qed

text \<open>
  The claim as stated (every COA time) fails when the polar angle does not evaluate to a
  finite number: at the COA time \<open>inf\<close> Horner's rule gives \<open>0 + inf * 0 = NaN\<close> for
  \<open>theta\<close>, and the range and range rate at (0, 0) are NaN, not the reference values 1
  and 5.
\<close>
theorem rgazim_pfa_at_scp_counterexample:
  "compute_coa_r_rdot example_mono [(Fin 0, Fin 0)] [PInf]
     (no_coa_pos_vels\<lparr>CoaPosVels.ARP_COA := Some [(Fin 0, Fin 0, Fin 1)],
        CoaPosVels.VARP_COA := Some [(Fin 0, Fin 1, Fin 5)]\<rparr>) = Inr ([NaN], [NaN])
   \<and> rgazim_pfa_scp example_mono
     (no_coa_pos_vels\<lparr>CoaPosVels.ARP_COA := Some [(Fin 0, Fin 0, Fin 1)],
        CoaPosVels.VARP_COA := Some [(Fin 0, Fin 1, Fin 5)]\<rparr>) = Inr ([Fin 1], [Fin 5])"
  by (simp add: compute_coa_r_rdot_def select_r_rdot_func_def call_r_rdot_func_def
      r_rdot_from_rgazim_pfa_def polyval_def polyder_def rgazim_pfa_delta_def
      example_mono_def no_coa_pos_vels_def rgazim_pfa_scp_def is_monostatic_def
      and_then_def deref_def belem_def bjoin_def bget_def vzero_def norm3_Fin Let_def
      minus_npfloat_def)

theorem rgazim_pfa_at_scp_witness:
  "\<exists>r rdot. compute_coa_r_rdot (example_mono\<lparr>cPA := [Fin 1, Fin 2], cKSF := [Fin 3, Fin 4]\<rparr>)
       [(Fin 0, Fin 0), (Fin 3, Fin 4)] [Fin 2, Fin 7]
       (no_coa_pos_vels\<lparr>CoaPosVels.ARP_COA := Some [(Fin 0, Fin 0, Fin 1), (Fin 0, Fin 1, Fin 0)],
          CoaPosVels.VARP_COA := Some [(Fin 0, Fin 1, Fin 5), (Fin 2, Fin 3, Fin 4)]\<rparr>)
       = Inr (r, rdot)
     \<and> length r = 2 \<and> length rdot = 2 \<and> r ! 0 = Fin 1 \<and> rdot ! 0 = Fin 5"
proof -
  let ?m = "example_mono\<lparr>cPA := [Fin 1, Fin 2], cKSF := [Fin 3, Fin 4]\<rparr>"
  let ?cpv = "no_coa_pos_vels\<lparr>CoaPosVels.ARP_COA := Some [(Fin 0, Fin 0, Fin 1), (Fin 0, Fin 1, Fin 0)],
          CoaPosVels.VARP_COA := Some [(Fin 0, Fin 1, Fin 5), (Fin 2, Fin 3, Fin 4)]\<rparr>"
  have scp: "rgazim_pfa_scp ?m ?cpv = Inr ([Fin 1, Fin 1], [Fin 5, Fin 3])"
    by (simp add: example_mono_def no_coa_pos_vels_def rgazim_pfa_scp_def is_monostatic_def
        and_then_def deref_def belem_def bjoin_def bget_def vzero_def norm3_Fin Let_def
        minus_npfloat_def numeral_2_eq_2)
  have "\<exists>r rdot. compute_coa_r_rdot ?m [(Fin 0, Fin 0), (Fin 3, Fin 4)] [Fin 2, Fin 7] ?cpv
           = Inr (r, rdot) \<and> length r = 2 \<and> length rdot = 2
           \<and> (\<forall>i. bget [(Fin 0, Fin 0), (Fin 3, Fin 4)] i = (Fin 0, Fin 0)
                 \<and> isfinite (horner (bget [Fin 2, Fin 7] i) (cPA ?m))
                 \<and> isfinite (horner (bget [Fin 2, Fin 7] i) (polyder (cPA ?m)))
                 \<and> isfinite (horner (horner (bget [Fin 2, Fin 7] i) (cPA ?m)) (cKSF ?m))
                 \<and> isfinite (horner (horner (bget [Fin 2, Fin 7] i) (cPA ?m)) (polyder (cKSF ?m)))
                 \<longrightarrow> (i < 2 \<longrightarrow> r ! i = bget [Fin 1, Fin 1] i)
                   \<and> (i < 2 \<longrightarrow> rdot ! i = bget [Fin 5, Fin 3] i))"
    using rgazim_pfa_at_scp [of ?m ?cpv "[Fin 1, Fin 1]" "[Fin 5, Fin 3]"
        "[(Fin 0, Fin 0), (Fin 3, Fin 4)]" "[Fin 2, Fin 7]" 2 2 2] scp
    by (simp add: example_mono_def bjoin_def)
  then obtain r rdot where run: "compute_coa_r_rdot ?m [(Fin 0, Fin 0), (Fin 3, Fin 4)]
      [Fin 2, Fin 7] ?cpv = Inr (r, rdot)" "length r = 2" "length rdot = 2"
    and el: "\<forall>i. bget [(Fin 0, Fin 0), (Fin 3, Fin 4)] i = (Fin 0, Fin 0)
                 \<and> isfinite (horner (bget [Fin 2, Fin 7] i) (cPA ?m))
                 \<and> isfinite (horner (bget [Fin 2, Fin 7] i) (polyder (cPA ?m)))
                 \<and> isfinite (horner (horner (bget [Fin 2, Fin 7] i) (cPA ?m)) (cKSF ?m))
                 \<and> isfinite (horner (horner (bget [Fin 2, Fin 7] i) (cPA ?m)) (polyder (cKSF ?m)))
                 \<longrightarrow> (i < 2 \<longrightarrow> r ! i = bget [Fin 1, Fin 1] i)
                   \<and> (i < 2 \<longrightarrow> rdot ! i = bget [Fin 5, Fin 3] i)"
    by blast
  have "r ! 0 = Fin 1 \<and> rdot ! 0 = Fin 5"
    using el [rule_format, of 0]
    by (simp add: bget_def example_mono_def polyder_def upt_rec)
  then show ?thesis using run by blast
qed

section \<open>No solution in the monostatic projection\<close>

lemma add_NaN_right [simp]: "x + NaN = NaN"
  by (cases x) simp_all

lemma mul_NaN_right [simp]: "x * NaN = NaN"
  by (cases x) simp_all

lemma minus_NaN_left [simp]: "NaN - x = NaN"
  by (simp add: minus_npfloat_def)

lemma minus_NaN_right [simp]: "x - NaN = NaN"
  by (simp add: minus_npfloat_def)

lemma vscale_NaN [simp]: "vscale NaN v = vnan"
  by (cases v) (simp add: vnan_def)

lemma vsub_vnan [simp]: "vsub v vnan = vnan"
  by (cases v) (simp add: vnan_def)

lemma vadd_vnan_left [simp]: "vadd vnan v = vnan"
  by (cases v) (simp add: vnan_def)



text \<open>
  The error path of line 486: when \<open>R_COA\<close> has more rows than \<open>arpz\<close> the boolean mask
  does not fit \<open>arpz\<close> and the call raises IndexError.
\<close>

lemma mono_mask_does_not_fit:
  assumes "ProjectionSets.ARP_COA ps = Some arp" "ProjectionSets.VARP_COA ps = Some varp"
    and "ProjectionSets.R_COA ps = Some r" "ProjectionSets.Rdot_COA ps = Some rdot"
    and "bshape [length arp, length gref, length ugpn] = Some na"
    and "bshape [na, length r] = Some k" and "k \<noteq> na"
  shows "r_rdot_to_ground_plane_mono m ps gref ugpn = Inl IndexError"
  using assms
  by (simp add: r_rdot_to_ground_plane_mono_def assert_not_None_def and_then_def
      belem_Some del: bshape.simps)

lemma mono_mask_does_not_fit_example:
  "r_rdot_to_ground_plane_mono example_mono
     (example_projection_sets\<lparr>ProjectionSets.ARP_COA := Some [(Fin 0, Fin 0, Fin 5)]\<rparr>)
     [vzero] [(Fin 0, Fin 0, Fin 1)] = Inl IndexError"
  by (simp add: r_rdot_to_ground_plane_mono_def assert_not_None_def and_then_def
      example_projection_sets_def belem_def bjoin_def)



section \<open>Bistatic geometry\<close>

lemma sqrt_25: "sqrt 25 = 5"
  by (rule real_sqrt_unique) simp_all

lemma xyzpolyder_two: "xyzpolyder [a, b] = [b]"
  by (simp add: xyzpolyder_def upt_rec)


lemma gp_xy_elem_matrix:
  "gp_xy_elem pt ugpn bp_pt bpdot_pt = (ugx, ugy, m) \<Longrightarrow>
   m = ((- vsum (vmul bp_pt ugx), - vsum (vmul bpdot_pt ugx)),
        (Fin 0, - vsum (vmul bpdot_pt ugy)))"
  by (auto simp: gp_xy_elem_def Let_def stack_last_def)

lemma inv2_is_inverse:
  assumes "mfinite m" and "inv2 m = Inr mi"
  shows "matvec mi (matvec m (Fin x, Fin y)) = (Fin x, Fin y)"
proof -
  obtain a b c d where m: "m = ((Fin a, Fin b), (Fin c, Fin d))"
    using assms(1) by (cases m) (auto simp: mfinite_def isfinite_Fin)
  have det: "a * d - b * c \<noteq> 0"
    using assms(2) by (auto simp: m inv2_def mfinite_def minus_npfloat_def split: if_splits)
  have mi: "mi = ((Fin (d / (a * d - b * c)), Fin (- b / (a * d - b * c))),
                  (Fin (- c / (a * d - b * c)), Fin (a / (a * d - b * c))))"
    using assms(2) det by (auto simp: m inv2_def mfinite_def minus_npfloat_def)
  define D where "D = a * d - b * c"
  have D: "D \<noteq> 0" using det by (simp add: D_def)
  have 1: "d * (a * x + b * y) / D - b * (c * x + d * y) / D = x"
  proof -
    have "d * (a * x + b * y) / D - b * (c * x + d * y) / D
          = (d * (a * x + b * y) - b * (c * x + d * y)) / D"
      by (simp add: diff_divide_distrib)
    also have "d * (a * x + b * y) - b * (c * x + d * y) = D * x"
      by (simp add: D_def algebra_simps)
    finally show ?thesis using D by simp
  qed
  have 2: "a * (c * x + d * y) / D - c * (a * x + b * y) / D = y"
  proof -
    have "a * (c * x + d * y) / D - c * (a * x + b * y) / D
          = (a * (c * x + d * y) - c * (a * x + b * y)) / D"
      by (simp add: diff_divide_distrib)
    also have "a * (c * x + d * y) - c * (a * x + b * y) = D * y"
      by (simp add: D_def algebra_simps)
    finally show ?thesis using D by simp
  qed
  show ?thesis by (simp add: m mi 1 [unfolded D_def] 2 [unfolded D_def])
qed

text \<open>
  Claim C3. The rows of \<open>M_RRdot_GPXY\<close> are not the ones claimed: the two arrays
  \<open>[bP.uGX, 0]\<close> and \<open>[bPDot.uGX, bPDot.uGY]\<close> are stacked along the last axis, so they
  are the columns of the matrix (\<open>gp_xy_elem_matrix\<close>). For the scene point (0, 0, 1),
  the normal (0, 0, 1), \<open>bP = (1, 0, 0)\<close> and \<open>bPDot = (1, 1, 0)\<close> the code returns the
  rows \<open>[-1, -1]\<close> and \<open>[0, -1]\<close>, where the claim has \<open>[-1, 0]\<close> and \<open>[-1, -1]\<close>.
  \<open>M_GPXY_RRdot\<close> is the inverse of the matrix the code built (\<open>inv2_is_inverse\<close>).
\<close>
theorem gp_xy_matrix_is_transposed:
  "\<exists>gp. compute_gp_xy_parameters [(Fin 0, Fin 0, Fin 1)] [(Fin 0, Fin 0, Fin 1)]
           [(Fin 1, Fin 0, Fin 0)] [(Fin 1, Fin 1, Fin 0)] = Inr gp
     \<and> uGX gp = [(Fin 1, Fin 0, Fin 0)] \<and> uGY gp = [(Fin 0, Fin 1, Fin 0)]
     \<and> M_RRdot_GPXY gp = [((Fin (- 1), Fin (- 1)), (Fin 0, Fin (- 1)))]
     \<and> M_GPXY_RRdot gp = [((Fin (- 1), Fin 1), (Fin 0, Fin (- 1)))]"
  by (simp add: compute_gp_xy_parameters_def belem_def bjoin_def bget_def and_then_def
      gp_xy_elem_def Let_def stack_last_def norm3_Fin minus_npfloat_def gt_def inv2_def
      mfinite_def)

text \<open>
  Claim C2. For an array of COA times the transmit and receive times are not computed
  from each element's own range: \<open>np.linalg.norm\<close> is called with no axis and returns
  the norm of the whole array. With the transmitter at range 3 m at time 3 and at range
  4 m at time 4, both elements are retarded by 5 m / c; alone, the first is retarded by
  3 m / c (\<open>coa_pos_vel_single_time\<close>).
\<close>
theorem coa_pos_vel_uses_whole_array_norm:
  "\<exists>cpv. compute_coa_pos_vel example_bi [Fin 3, Fin 4] = Inr cpv
     \<and> CoaPosVels.tx_COA cpv = Some [Fin (3 - 5 / 299792458), Fin (4 - 5 / 299792458)]
     \<and> CoaPosVels.tr_COA cpv = Some [Fin (3 + 5 / 299792458), Fin (4 + 5 / 299792458)]"
  by (simp add: compute_coa_pos_vel_def example_bi_def example_mono_def is_monostatic_def
      and_then_def xyzpolyval_def column0_def column1_def column2_def vzero_def norm_all_def
      minus_npfloat_def speed_of_light_def sqrt_25 Let_def xyzpolyder_two)

lemma coa_pos_vel_single_time:
  "\<exists>cpv. compute_coa_pos_vel example_bi [Fin 3] = Inr cpv
     \<and> CoaPosVels.tx_COA cpv = Some [Fin (3 - 3 / 299792458)]
     \<and> CoaPosVels.tr_COA cpv = Some [Fin (3 + 3 / 299792458)]"
  by (simp add: compute_coa_pos_vel_def example_bi_def example_mono_def is_monostatic_def
      and_then_def xyzpolyval_def column0_def column1_def column2_def vzero_def norm_all_def
      minus_npfloat_def speed_of_light_def Let_def xyzpolyder_two)

section \<open>The loop of the projection to a surface of constant height\<close>


lemma length_scatter [simp]: "length (scatter xs bs ys) = length xs"
  by (induction xs bs ys rule: scatter.induct) simp_all


lemma and_then_Inr:
  "and_then m f = Inr y \<longleftrightarrow> (\<exists>x. m = Inr x \<and> f x = Inr y)"
  by (cases m) (simp_all add: and_then_def)



lemma hae_project_length:
  assumes "hae_project m ps a1 v1 a2 v2 bthr bmax st = Inr (gpp, flags)"
  shows "length gpp = length (hae_gpp st)"
    "length flags = length (hae_r_rdot_to_plane_success st)"
  using assms
  by (auto simp: hae_project_def Let_def and_then_Inr split: if_splits prod.splits)






lemma scatter_select_self: "scatter (map f xs) bs (map f (select xs bs)) = map f xs"
  by (induction xs bs rule: select.induct) auto

lemma scatter_nil [simp]: "scatter xs bs [] = xs"
  by (induction xs bs "[] :: 'a list" rule: scatter.induct) simp_all

lemma scatter_map_select:
  "scatter (map f xs) bs (map f (select (scatter xs bs ys) bs)) = map f (scatter xs bs ys)"
proof (induction xs bs ys rule: scatter.induct)
  case (1 x xs bs y ys)
  then show ?case by simp
next
  case (2 x xs bs ys)
  then show ?case by simp
qed (simp_all add: scatter_select_self)





lemma hae_project_mono_flags:
  assumes "hae_project m ps a1 v1 a2 v2 bthr bmax st = Inr (gpp, flags)"
    and "is_monostatic m"
    and "hae_r_rdot_to_plane_success st = map vfinite (hae_gpp st)"
  shows "flags = map vfinite gpp"
  using assms
  by (auto simp: hae_project_def Let_def and_then_Inr scatter_map_select)



section \<open>The loop of scene to image\<close>










lemma le_NaN [simp]: "\<not> le NaN x"
  by simp




















































end
